theory Spec2Isabelle
  imports Main
begin

section \<open>Python values, exceptions and strings\<close>

text \<open>
  The scrapers of \<^verbatim>\<open>getvenue.py\<close> work on dynamically typed data: decoded JSON, HTML
  trees and strings. A decoded JSON value is a \<open>json\<close>; an exception is a value of
  \<open>error\<close>, and a computation that may raise returns \<open>error + 'a\<close> with \<open>Inl\<close> the
  exception. A \<open>char\<close> stands for one code point below 256.
\<close>

datatype error =
  KeyError | TypeError | AttributeError | IndexError | ValueError
  | RequestException | DecodeError | OverflowError

datatype json =
  JNull | JBool bool | JInt int | JFloat int int | JStr string
  | JArr "json list" | JObj "(string \<times> json) list"

text \<open>\<open>JFloat m e\<close> is the float \<open>m * 2 ^ e\<close>; \<open>JObj\<close> lists a dict's items.\<close>

definition bind :: "error + 'a \<Rightarrow> ('a \<Rightarrow> error + 'b) \<Rightarrow> error + 'b" where
  "bind m f = (case m of Inl ex \<Rightarrow> Inl ex | Inr v \<Rightarrow> f v)"

text \<open>\<open>v[key]\<close> with a string key.\<close>

fun subscript :: "json \<Rightarrow> string \<Rightarrow> error + json" where
  "subscript (JObj kvs) key = (case map_of kvs key of None \<Rightarrow> Inl KeyError | Some v \<Rightarrow> Inr v)"
| "subscript _ key = Inl TypeError"

text \<open>Truth value testing, as \<open>if v:\<close> does it.\<close>

fun truthy :: "json \<Rightarrow> bool" where
  "truthy JNull = False"
| "truthy (JBool b) = b"
| "truthy (JInt i) = (i \<noteq> 0)"
| "truthy (JFloat m e) = (m \<noteq> 0)"
| "truthy (JStr s) = (s \<noteq> [])"
| "truthy (JArr xs) = (xs \<noteq> [])"
| "truthy (JObj kvs) = (kvs \<noteq> [])"

text \<open>\<open>for x in v\<close>: a list gives its elements, a string its characters, a dict its keys.\<close>

fun py_iter :: "json \<Rightarrow> error + json list" where
  "py_iter (JArr xs) = Inr xs"
| "py_iter (JStr s) = Inr (map (\<lambda>c. JStr [c]) s)"
| "py_iter (JObj kvs) = Inr (map (\<lambda>kv. JStr (fst kv)) kvs)"
| "py_iter _ = Inl TypeError"

definition is_space :: "char \<Rightarrow> bool" where
  "is_space c = (let n = (of_char c :: nat) in
     (9 \<le> n \<and> n \<le> 13) \<or> (28 \<le> n \<and> n \<le> 32) \<or> n = 133 \<or> n = 160)"

definition is_digit :: "char \<Rightarrow> bool" where
  "is_digit c = (let n = (of_char c :: nat) in 48 \<le> n \<and> n \<le> 57)"

definition digit_val :: "char \<Rightarrow> nat" where
  "digit_val c = of_char c - 48"

definition digit_char :: "nat \<Rightarrow> char" where
  "digit_char n = char_of (48 + n)"

text \<open>\<open>s.strip()\<close>.\<close>

definition strip :: "string \<Rightarrow> string" where
  "strip s = rev (dropWhile is_space (rev (dropWhile is_space s)))"

text \<open>\<open>s.lower()\<close>: the letters A-Z and the upper case letters of Latin-1.\<close>

definition lower_char :: "char \<Rightarrow> char" where
  "lower_char c = (let n = (of_char c :: nat) in
     if (65 \<le> n \<and> n \<le> 90) \<or> (192 \<le> n \<and> n \<le> 222 \<and> n \<noteq> 215) then char_of (n + 32) else c)"

definition lower :: "string \<Rightarrow> string" where
  "lower s = map lower_char s"

text \<open>\<open>s.encode('ascii', 'ignore')\<close>: the code points below 128.\<close>

definition encode_ascii_ignore :: "string \<Rightarrow> string" where
  "encode_ascii_ignore s = filter (\<lambda>c. (of_char c :: nat) < 128) s"

text \<open>The decimal digits of a number, and \<open>'%0wd' % n\<close>.\<close>

function decimal :: "nat \<Rightarrow> string" where
  "decimal n = (if n < 10 then [digit_char n] else decimal (n div 10) @ [digit_char (n mod 10)])"
  by pat_completeness auto
termination
  by (relation "measure id") auto

definition zpad :: "nat \<Rightarrow> nat \<Rightarrow> string" where
  "zpad w n = replicate (w - length (decimal n)) (CHR ''0'') @ decimal n"

section \<open>Dates and times\<close>

text \<open>
  A \<open>datetime\<close> object: its fields and \<open>utcoffset()\<close> in seconds (\<open>None\<close> for a naive
  object). \<open>valid_datetime\<close> is the invariant every Python datetime object satisfies.
\<close>

record datetime =
  year :: nat
  month :: nat
  day :: nat
  hour :: nat
  minute :: nat
  second :: nat
  microsecond :: nat
  utcoffset :: "int option"

definition is_leap :: "nat \<Rightarrow> bool" where
  "is_leap y = (y mod 4 = 0 \<and> (y mod 100 \<noteq> 0 \<or> y mod 400 = 0))"

definition days_in_month :: "nat \<Rightarrow> nat \<Rightarrow> nat" where
  "days_in_month y m =
     (if m = 2 then (if is_leap y then 29 else 28)
      else if m = 4 \<or> m = 6 \<or> m = 9 \<or> m = 11 then 30 else 31)"

definition valid_offset :: "int option \<Rightarrow> bool" where
  "valid_offset off = (case off of None \<Rightarrow> True | Some s \<Rightarrow> - 86400 < s \<and> s < 86400)"

definition valid_datetime :: "datetime \<Rightarrow> bool" where
  "valid_datetime d =
     (1 \<le> year d \<and> year d \<le> 9999 \<and> 1 \<le> month d \<and> month d \<le> 12
      \<and> 1 \<le> day d \<and> day d \<le> days_in_month (year d) (month d)
      \<and> hour d < 24 \<and> minute d < 60 \<and> second d < 60 \<and> microsecond d < 1000000
      \<and> valid_offset (utcoffset d))"

text \<open>
  \<open>d.isoformat()\<close>: \<open>YYYY-MM-DDTHH:MM:SS\<close>, then \<open>.ffffff\<close> when the microsecond is not
  zero, then the offset \<open>+HH:MM\<close> of an aware object, with \<open>:SS\<close> when it has seconds.
\<close>

definition format_offset :: "int \<Rightarrow> string" where
  "format_offset off =
     (let a = nat \<bar>off\<bar>; hh = a div 3600; mm = a mod 3600 div 60; ss = a mod 60 in
      (if off < 0 then ''-'' else ''+'') @ zpad 2 hh @ '':'' @ zpad 2 mm
      @ (if ss \<noteq> 0 then '':'' @ zpad 2 ss else ''''))"

definition isoformat :: "datetime \<Rightarrow> string" where
  "isoformat d =
     zpad 4 (year d) @ ''-'' @ zpad 2 (month d) @ ''-'' @ zpad 2 (day d) @ ''T''
     @ zpad 2 (hour d) @ '':'' @ zpad 2 (minute d) @ '':'' @ zpad 2 (second d)
     @ (if microsecond d \<noteq> 0 then ''.'' @ zpad 6 (microsecond d) else '''')
     @ (case utcoffset d of None \<Rightarrow> '''' | Some off \<Rightarrow> format_offset off)"

section \<open>The event record\<close>

text \<open>
  The attributes of class \<open>Event\<close>. A venue is whatever value the source field held, a
  link is always a string and \<open>start\<close> always a datetime object.
\<close>

record Event =
  venue :: json
  bands :: "json list"
  start :: datetime
  link :: string
  soldout :: bool

text \<open>
  The \<open>def __init__(self, venue='', bands=[], start=datetime.datetime.today(), link='',
  soldout=False)\<close> statement evaluates its default expressions once, when the class body
  runs at import; the argument is what \<open>datetime.datetime.today()\<close> returned then.
\<close>

definition Event_defaults :: "datetime \<Rightarrow> Event" where
  "Event_defaults today_at_import =
     \<lparr>venue = JStr '''', bands = [], start = today_at_import, link = '''', soldout = False\<rparr>"

text \<open>\<open>Event.__init__\<close>: an argument left out takes the stored default.\<close>

definition Event_init ::
  "Event \<Rightarrow> json option \<Rightarrow> json list option \<Rightarrow> datetime option \<Rightarrow> string option
   \<Rightarrow> bool option \<Rightarrow> Event" where
  "Event_init defaults v b s l so =
     \<lparr>venue = (case v of None \<Rightarrow> venue defaults | Some x \<Rightarrow> x),
      bands = (case b of None \<Rightarrow> bands defaults | Some x \<Rightarrow> x),
      start = (case s of None \<Rightarrow> start defaults | Some x \<Rightarrow> x),
      link = (case l of None \<Rightarrow> link defaults | Some x \<Rightarrow> x),
      soldout = (case so of None \<Rightarrow> soldout defaults | Some x \<Rightarrow> x)\<rparr>"

definition to_json :: "Event \<Rightarrow> json" where
  "to_json ev =
     JObj [(''venue'', venue ev),
           (''bands'', JArr (bands ev)),
           (''start'', JStr (isoformat (start ev))),
           (''link'', JStr (link ev)),
           (''soldout'', JBool (soldout ev))]"

section \<open>The environment: network, clock and library parsers\<close>

text \<open>
  A request names the URL fetched. The month calendars carry the month and year, or the
  period index; the House of Blues request its two dates.
\<close>

datatype request =
  BoweryEvents
  | HouseOfBluesEvents "nat \<times> nat \<times> nat" "nat \<times> nat \<times> nat"
  | MiddleEastMonth nat nat
  | ParadiseMonth nat
  | BrightonMonth nat

text \<open>
  A response of \<open>requests.get\<close>: \<open>r.status_code\<close>, \<open>r.text\<close> and what \<open>r.json()\<close>
  returns or raises.
\<close>

record response =
  status_code :: int
  rtext :: string
  rjson :: "error + json"

text \<open>An HTML tree as BeautifulSoup holds it: text nodes and tags with attributes.\<close>

datatype node = Text string | Tag string "(string \<times> string) list" "node list"

text \<open>
  What the code takes from outside: the network (\<open>requests.get\<close> may raise), the
  parsers of BeautifulSoup, demjson, json and dateutil, the local time zone
  (\<open>astimezone(tzlocal())\<close> and the offset \<open>tzlocal()\<close> gives a naive time), \<open>str\<close> of a
  decoded value, and the clock: \<open>datetime.datetime.today()\<close> now and when the module
  was imported.
\<close>

record env =
  http_get :: "request \<Rightarrow> error + response"
  html_parser :: "string \<Rightarrow> node"
  demjson_decode :: "string \<Rightarrow> error + json"
  json_loads :: "string \<Rightarrow> error + json"
  dateutil_parse :: "json \<Rightarrow> error + datetime"
  astimezone_local :: "datetime \<Rightarrow> error + datetime"
  tzlocal_utcoffset :: "datetime \<Rightarrow> int"
  py_str :: "json \<Rightarrow> string"
  today :: datetime
  import_today :: datetime

text \<open>\<open>d.replace(tzinfo=dateutil.tz.tzlocal())\<close>.\<close>

definition replace_tzlocal :: "env \<Rightarrow> datetime \<Rightarrow> datetime" where
  "replace_tzlocal env d = d\<lparr>utcoffset := Some (tzlocal_utcoffset env (d\<lparr>utcoffset := None\<rparr>))\<rparr>"

text \<open>\<open>'prefix' + v\<close>: only a string can be appended to a string.\<close>

fun str_concat :: "string \<Rightarrow> json \<Rightarrow> error + string" where
  "str_concat p (JStr s) = Inr (p @ s)"
| "str_concat p _ = Inl TypeError"

section \<open>The Middle East calendar: a JavaScript array inside a page\<close>

text \<open>
  \<open>re.search(r'events: (\[.*?])', data, flags=re.S)\<close>, group 1: from the bracket of
  the leftmost \<open>events: [\<close> to the first closing bracket after it.
\<close>

fun search_events :: "string \<Rightarrow> string option" where
  "search_events [] = None"
| "search_events (c # cs) =
     (if take 9 (c # cs) = ''events: ['' \<and> CHR '']'' \<in> set (drop 9 (c # cs))
      then Some (''['' @ takeWhile (\<lambda>x. x \<noteq> CHR '']'') (drop 9 (c # cs)) @ '']'')
      else search_events cs)"

text \<open>
  \<open>re.search(r'<div[^<>]*>([^<]+)', v)\<close>, group 1. At a position the pattern matches
  when \<open><div\<close> stands there, the characters up to the next angle bracket end in \<open>>\<close>
  and at least one character other than \<open><\<close> follows; the group is the longest run
  of those.
\<close>

definition match_div :: "string \<Rightarrow> string option" where
  "match_div s =
     (if take 4 s = ''<div'' then
        (case dropWhile (\<lambda>x. x \<noteq> CHR ''<'' \<and> x \<noteq> CHR ''>'') (drop 4 s) of
           [] \<Rightarrow> None
         | x # r \<Rightarrow>
             if x = CHR ''>'' \<and> takeWhile (\<lambda>x. x \<noteq> CHR ''<'') r \<noteq> []
             then Some (takeWhile (\<lambda>x. x \<noteq> CHR ''<'') r) else None)
      else None)"

fun search_div :: "string \<Rightarrow> string option" where
  "search_div [] = None"
| "search_div (c # cs) =
     (case match_div (c # cs) of Some g \<Rightarrow> Some g | None \<Rightarrow> search_div cs)"

text \<open>\<open>re.search(pattern, v).group(1)\<close> on a value: no match gives \<open>None\<close>, which has no \<open>group\<close>.\<close>

fun venue_text :: "json \<Rightarrow> error + string" where
  "venue_text (JStr s) = (case search_div s of None \<Rightarrow> Inl AttributeError | Some g \<Rightarrow> Inr g)"
| "venue_text _ = Inl TypeError"

text \<open>\<open>re.split\<close> on a pattern of single characters.\<close>

fun split_on :: "(char \<Rightarrow> bool) \<Rightarrow> string \<Rightarrow> string list" where
  "split_on p [] = [[]]"
| "split_on p (c # cs) =
     (if p c then [] # split_on p cs
      else (case split_on p cs of [] \<Rightarrow> [[c]] | x # xs \<Rightarrow> (c # x) # xs))"

text \<open>\<open>[x.strip() for x in re.split(r',|\|', t)]\<close>.\<close>

fun title_bands :: "json \<Rightarrow> error + json list" where
  "title_bands (JStr s) =
     Inr (map (\<lambda>x. JStr (strip x)) (split_on (\<lambda>c. c = CHR '','' \<or> c = CHR ''|'') s))"
| "title_bands _ = Inl TypeError"

text \<open>
  \<open>datetime.datetime.strptime(v, '%Y-%m-%d %H:%M:%S')\<close>. The format is compiled to the
  regular expression
  \<^verbatim>\<open>(\d\d\d\d)-(1[0-2]|0[1-9]|[1-9])-(3[0-1]|[1-2]\d|0[1-9]|[1-9]| [1-9])\s+\<close>
  \<^verbatim>\<open>(2[0-3]|[0-1]\d|\d):([0-5]\d|\d):(6[0-1]|[0-5]\d|\d)\<close>,
  which must match at the start and leave nothing over. Each field is followed by a
  character that is no digit, so the first alternative that matches is the one the
  match uses. The fields must then make a date and time that exist.
\<close>

definition in_range :: "nat \<Rightarrow> nat \<Rightarrow> char \<Rightarrow> bool" where
  "in_range lo hi c = (48 + lo \<le> (of_char c :: nat) \<and> (of_char c :: nat) \<le> 48 + hi)"

definition alt2 :: "(char \<Rightarrow> bool) \<Rightarrow> (char \<Rightarrow> bool) \<Rightarrow> string \<Rightarrow> (string \<times> string) option" where
  "alt2 p q s = (case s of a # b # r \<Rightarrow> if p a \<and> q b then Some ([a, b], r) else None | _ \<Rightarrow> None)"

definition alt1 :: "(char \<Rightarrow> bool) \<Rightarrow> string \<Rightarrow> (string \<times> string) option" where
  "alt1 p s = (case s of a # r \<Rightarrow> if p a then Some ([a], r) else None | _ \<Rightarrow> None)"

definition orelse :: "'a option \<Rightarrow> 'a option \<Rightarrow> 'a option" where
  "orelse x y = (case x of None \<Rightarrow> y | Some v \<Rightarrow> Some v)"

definition directive_Y :: "string \<Rightarrow> (string \<times> string) option" where
  "directive_Y s = (if 4 \<le> length s \<and> list_all is_digit (take 4 s) then Some (take 4 s, drop 4 s) else None)"

definition directive_m :: "string \<Rightarrow> (string \<times> string) option" where
  "directive_m s =
     orelse (alt2 (in_range 1 1) (in_range 0 2) s)
    (orelse (alt2 (in_range 0 0) (in_range 1 9) s)
            (alt1 (in_range 1 9) s))"

definition directive_d :: "string \<Rightarrow> (string \<times> string) option" where
  "directive_d s =
     orelse (alt2 (in_range 3 3) (in_range 0 1) s)
    (orelse (alt2 (in_range 1 2) is_digit s)
    (orelse (alt2 (in_range 0 0) (in_range 1 9) s)
    (orelse (alt1 (in_range 1 9) s)
            (alt2 (\<lambda>c. c = CHR '' '') (in_range 1 9) s))))"

definition directive_H :: "string \<Rightarrow> (string \<times> string) option" where
  "directive_H s =
     orelse (alt2 (in_range 2 2) (in_range 0 3) s)
    (orelse (alt2 (in_range 0 1) is_digit s)
            (alt1 is_digit s))"

definition directive_M :: "string \<Rightarrow> (string \<times> string) option" where
  "directive_M s = orelse (alt2 (in_range 0 5) is_digit s) (alt1 is_digit s)"

definition directive_S :: "string \<Rightarrow> (string \<times> string) option" where
  "directive_S s =
     orelse (alt2 (in_range 6 6) (in_range 0 1) s)
    (orelse (alt2 (in_range 0 5) is_digit s)
            (alt1 is_digit s))"

definition literal :: "char \<Rightarrow> string \<Rightarrow> string option" where
  "literal c s = (case s of a # r \<Rightarrow> if a = c then Some r else None | [] \<Rightarrow> None)"

definition spaces :: "string \<Rightarrow> string option" where
  "spaces s = (case s of a # r \<Rightarrow> if is_space a then Some (dropWhile is_space r) else None | [] \<Rightarrow> None)"

text \<open>\<open>int\<close> of a matched field: its digits (a leading space is skipped).\<close>

definition field_int :: "string \<Rightarrow> nat" where
  "field_int s = foldl (\<lambda>a c. 10 * a + digit_val c) 0 (filter is_digit s)"

definition match_format :: "string \<Rightarrow> (nat \<times> nat \<times> nat \<times> nat \<times> nat \<times> nat) option" where
  "match_format s =
     Option.bind (directive_Y s) (\<lambda>(Y, s).
     Option.bind (literal (CHR ''-'') s) (\<lambda>s.
     Option.bind (directive_m s) (\<lambda>(m, s).
     Option.bind (literal (CHR ''-'') s) (\<lambda>s.
     Option.bind (directive_d s) (\<lambda>(d, s).
     Option.bind (spaces s) (\<lambda>s.
     Option.bind (directive_H s) (\<lambda>(H, s).
     Option.bind (literal (CHR '':'') s) (\<lambda>s.
     Option.bind (directive_M s) (\<lambda>(M, s).
     Option.bind (literal (CHR '':'') s) (\<lambda>s.
     Option.bind (directive_S s) (\<lambda>(S, s).
     if s = [] then
       Some (field_int Y, field_int m, field_int d, field_int H, field_int M, field_int S)
     else None)))))))))))"

fun strptime :: "json \<Rightarrow> error + datetime" where
  "strptime (JStr s) =
     (case match_format s of
        None \<Rightarrow> Inl ValueError
      | Some (Y, m, d, H, M, S) \<Rightarrow>
          if 1 \<le> Y \<and> d \<le> days_in_month Y m \<and> S \<le> 59 then
            Inr \<lparr>year = Y, month = m, day = d, hour = H, minute = M, second = S,
                 microsecond = 0, utcoffset = None\<rparr>
          else Inl ValueError)"
| "strptime _ = Inl TypeError"

text \<open>
  The body of the \<open>try\<close> in \<open>middleeast\<close> for one decoded item: the record, or the
  exception raised on the way.
\<close>

definition middleeast_item :: "env \<Rightarrow> json \<Rightarrow> error + json" where
  "middleeast_item env i =
     bind (subscript i ''venue'') (\<lambda>v.
     bind (venue_text v) (\<lambda>ventext.
     bind (subscript i ''title'') (\<lambda>t.
     bind (title_bands t) (\<lambda>bs.
     bind (subscript i ''start'') (\<lambda>s.
     bind (strptime s) (\<lambda>d.
     bind (subscript i ''id'') (\<lambda>ident.
     bind (str_concat ''http://www.mideastoffers.com/event/'' ident) (\<lambda>l.
     Inr (to_json (Event_init (Event_defaults (import_today env))
            (Some (JStr ventext)) (Some bs) (Some (replace_tzlocal env d)) (Some l) None))))))))))"

text \<open>The loop over the decoded items: \<open>except: pass\<close> drops an item whose body raised.\<close>

fun middleeast_loop :: "env \<Rightarrow> json list \<Rightarrow> json list \<Rightarrow> json list" where
  "middleeast_loop env [] events_list = events_list"
| "middleeast_loop env (i # obj) events_list =
     middleeast_loop env obj
       (case middleeast_item env i of
          Inr j \<Rightarrow> events_list @ [j]
        | Inl ex \<Rightarrow> events_list)"

definition middleeast :: "env \<Rightarrow> string \<Rightarrow> error + json list" where
  "middleeast env data =
     (case search_events data of
        None \<Rightarrow> Inr []
      | Some g \<Rightarrow>
          bind (demjson_decode env g) (\<lambda>obj.
          bind (py_iter obj) (\<lambda>items.
          Inr (middleeast_loop env items []))))"

section \<open>The Crossroads calendars: Paradise Rock Club and Brighton Music Hall\<close>

text \<open>A comprehension or loop body that may raise, run over a list: the first exception ends it.\<close>

fun map_err :: "('a \<Rightarrow> error + 'b) \<Rightarrow> 'a list \<Rightarrow> error + 'b list" where
  "map_err f [] = Inr []"
| "map_err f (x # xs) = bind (f x) (\<lambda>y. bind (map_err f xs) (\<lambda>ys. Inr (y # ys)))"

text \<open>
  \<open>[x['title'] for x in e['artists']] if e['artists'] else [e['title']]\<close>: the condition
  is the truth value of \<open>e['artists']\<close>.
\<close>

definition crossroads_bands :: "json \<Rightarrow> error + json list" where
  "crossroads_bands e =
     bind (subscript e ''artists'') (\<lambda>artists.
     if truthy artists then
       bind (py_iter artists) (\<lambda>xs. map_err (\<lambda>x. subscript x ''title'') xs)
     else bind (subscript e ''title'') (\<lambda>t. Inr [t]))"

text \<open>One pass of the inner loop of \<open>crossroads_parse\<close>: the records it appends.\<close>

definition crossroads_event :: "env \<Rightarrow> json \<Rightarrow> error + json list" where
  "crossroads_event env e =
     bind (subscript e ''category_param'') (\<lambda>cat.
     if cat = JStr ''music'' then
       bind (subscript e ''venue'') (\<lambda>v.
       bind (subscript v ''title'') (\<lambda>vt.
       bind (crossroads_bands e) (\<lambda>bs.
       bind (subscript e ''tz_adjusted_begin_date'') (\<lambda>dv.
       bind (dateutil_parse env dv) (\<lambda>d.
       bind (subscript e ''permalink'') (\<lambda>p.
       bind (str_concat ''http://events.crossroadspresents.com'' p) (\<lambda>l.
       bind (subscript e ''sold_out'') (\<lambda>so.
       let ev = Event_init (Event_defaults (import_today env))
                  (Some vt) (Some bs) (Some d) (Some l) None;
           ev = (if truthy so then ev\<lparr>soldout := True\<rparr> else ev)
       in Inr [to_json ev]))))))))
     else Inr [])"

fun crossroads_events :: "env \<Rightarrow> json list \<Rightarrow> json list \<Rightarrow> error + json list" where
  "crossroads_events env [] events_list = Inr events_list"
| "crossroads_events env (e # es) events_list =
     bind (crossroads_event env e) (\<lambda>js. crossroads_events env es (events_list @ js))"

fun crossroads_groups :: "env \<Rightarrow> json list \<Rightarrow> json list \<Rightarrow> error + json list" where
  "crossroads_groups env [] events_list = Inr events_list"
| "crossroads_groups env (g # gs) events_list =
     bind (subscript g ''events'') (\<lambda>evs.
     bind (py_iter evs) (\<lambda>es.
     bind (crossroads_events env es events_list) (\<lambda>events_list.
     crossroads_groups env gs events_list)))"

definition crossroads_parse :: "env \<Rightarrow> json \<Rightarrow> error + json list" where
  "crossroads_parse env data =
     bind (subscript data ''event_groups'') (\<lambda>groups.
     bind (py_iter groups) (\<lambda>gs. crossroads_groups env gs []))"

section \<open>The House of Blues calendar\<close>

text \<open>\<open>artist_array.pop(0)\<close>: the first element and the list left; a dict has no key 0.\<close>

fun pop0 :: "json \<Rightarrow> error + json \<times> json list" where
  "pop0 (JArr []) = Inl IndexError"
| "pop0 (JArr (x # xs)) = Inr (x, xs)"
| "pop0 (JObj kvs) = Inl KeyError"
| "pop0 _ = Inl AttributeError"

text \<open>\<open>v.lower().encode('ascii', 'ignore')\<close>: only a string has \<open>lower\<close>.\<close>

fun lower_ascii :: "json \<Rightarrow> error + string" where
  "lower_ascii (JStr s) = Inr (encode_ascii_ignore (lower s))"
| "lower_ascii _ = Inl AttributeError"

text \<open>The loop \<open>for a in artist_array\<close> over the artists left after the first.\<close>

fun supporting :: "json \<Rightarrow> json list \<Rightarrow> json list \<Rightarrow> error + json list" where
  "supporting i [] bs = Inr bs"
| "supporting i (a # artist_array) bs =
     bind (subscript a ''name'') (\<lambda>n.
     bind (lower_ascii n) (\<lambda>na.
     bind (subscript i ''title'') (\<lambda>t.
     bind (lower_ascii t) (\<lambda>ta.
     supporting i artist_array (if na \<noteq> ta then bs @ [n] else bs)))))"

definition houseofblues_bands :: "json \<Rightarrow> error + json list" where
  "houseofblues_bands i =
     bind (subscript i ''artists'') (\<lambda>artist_array.
     bind (pop0 artist_array) (\<lambda>(first, artist_array).
     bind (subscript first ''name'') (\<lambda>n.
     supporting i artist_array [n])))"

text \<open>The body of the loop over \<open>rawobj['result']\<close>.\<close>

definition houseofblues_item :: "env \<Rightarrow> json \<Rightarrow> error + json" where
  "houseofblues_item env i =
     bind (houseofblues_bands i) (\<lambda>bs.
     bind (subscript i ''venueName'') (\<lambda>v.
     bind (subscript i ''eventDate'') (\<lambda>dv.
     bind (dateutil_parse env dv) (\<lambda>d.
     bind (subscript i ''eventID'') (\<lambda>ident.
     bind (subscript i ''soldOut'') (\<lambda>so.
     let ev = Event_init (Event_defaults (import_today env))
                (Some v) (Some bs) (Some (replace_tzlocal env d))
                (Some (''http://www.houseofblues.com/boston/EventDetail?tmeventid=''
                       @ py_str env ident @ ''&offerid=0'')) None;
         ev = (if truthy so then ev\<lparr>soldout := True\<rparr> else ev)
     in Inr (to_json ev)))))))"

fun houseofblues_loop :: "env \<Rightarrow> json list \<Rightarrow> json list \<Rightarrow> error + json list" where
  "houseofblues_loop env [] events_list = Inr events_list"
| "houseofblues_loop env (i # result) events_list =
     bind (houseofblues_item env i) (\<lambda>j. houseofblues_loop env result (events_list @ [j]))"

text \<open>\<open>d.replace(year=y)\<close>: the new date must exist.\<close>

definition replace_year :: "datetime \<Rightarrow> nat \<Rightarrow> error + datetime" where
  "replace_year d y =
     (if 1 \<le> y \<and> y \<le> 9999 \<and> day d \<le> days_in_month y (month d)
      then Inr (d\<lparr>year := y\<rparr>) else Inl ValueError)"

text \<open>\<open>re.sub(r'\\"', '"', s)\<close>: a backslash before a double quote is dropped.\<close>

fun unescape_quotes :: "string \<Rightarrow> string" where
  "unescape_quotes [] = []"
| "unescape_quotes [c] = [c]"
| "unescape_quotes (c # d # cs) =
     (if c = CHR 0x5C \<and> d = CHR 0x22 then d # unescape_quotes cs
      else c # unescape_quotes (d # cs))"

definition houseofblues :: "env \<Rightarrow> error + json list" where
  "houseofblues env =
     (let start_date = today env in
      bind (replace_year start_date (year start_date + 1)) (\<lambda>end_date.
      bind (http_get env (HouseOfBluesEvents
              (month start_date, day start_date, year start_date)
              (month end_date, day end_date, year end_date))) (\<lambda>r.
      bind (json_loads env (unescape_quotes (tl (butlast (rtext r))))) (\<lambda>rawobj.
      bind (subscript rawobj ''result'') (\<lambda>res.
      bind (py_iter res) (\<lambda>result.
      houseofblues_loop env result []))))))"

section \<open>The Bowery Boston calendar: an HTML page\<close>

text \<open>
  The tags and strings below a node in document order, as \<open>find\<close>, \<open>find_all\<close>,
  \<open>select_one\<close> and \<open>get_text\<close> visit them.
\<close>

fun descendants :: "node \<Rightarrow> node list" where
  "descendants (Text s) = []"
| "descendants (Tag n as cs) = concat (map (\<lambda>c. c # descendants c) cs)"

fun is_tag :: "string \<Rightarrow> node \<Rightarrow> bool" where
  "is_tag n (Tag m as cs) = (m = n)"
| "is_tag n (Text s) = False"

text \<open>The values of the \<open>class\<close> attribute, which is split at white space.\<close>

fun classes :: "node \<Rightarrow> string list" where
  "classes (Tag n as cs) =
     (case map_of as ''class'' of
        None \<Rightarrow> []
      | Some v \<Rightarrow> filter (\<lambda>w. w \<noteq> []) (split_on is_space v))"
| "classes (Text s) = []"

definition has_class :: "string \<Rightarrow> node \<Rightarrow> bool" where
  "has_class c n = (c \<in> set (classes n))"

text \<open>\<open>e.find(...)\<close> and \<open>e.select_one(...)\<close>: the first match, or \<open>None\<close>.\<close>

definition find_first :: "(node \<Rightarrow> bool) \<Rightarrow> node \<Rightarrow> node option" where
  "find_first p e = List.find p (descendants e)"

definition find_all :: "(node \<Rightarrow> bool) \<Rightarrow> node \<Rightarrow> node list" where
  "find_all p e = filter p (descendants e)"

text \<open>\<open>cursor[key]\<close> on a tag.\<close>

fun attr :: "node \<Rightarrow> string \<Rightarrow> error + string" where
  "attr (Tag n as cs) key = (case map_of as key of None \<Rightarrow> Inl KeyError | Some v \<Rightarrow> Inr v)"
| "attr (Text s) key = Inl TypeError"

text \<open>\<open>cursor.get_text(strip=True)\<close>: the stripped strings below the tag, joined.\<close>

fun strings :: "node list \<Rightarrow> string list" where
  "strings [] = []"
| "strings (Text s # ns) = s # strings ns"
| "strings (Tag n as cs # ns) = strings ns"

definition get_text_strip :: "node \<Rightarrow> string" where
  "get_text_strip cursor =
     concat (filter (\<lambda>s. s \<noteq> []) (map strip (strings (descendants cursor))))"

text \<open>\<open>re.sub(r'^with\s*', '', s)\<close> and \<open>s.split(', ')\<close>.\<close>

definition strip_with :: "string \<Rightarrow> string" where
  "strip_with s = (if take 4 s = ''with'' then dropWhile is_space (drop 4 s) else s)"

fun split_comma_space :: "string \<Rightarrow> string list" where
  "split_comma_space [] = [[]]"
| "split_comma_space [c] = [[c]]"
| "split_comma_space (c # d # cs) =
     (if c = CHR '','' \<and> d = CHR '' '' then [] # split_comma_space cs
      else (case split_comma_space (d # cs) of [] \<Rightarrow> [[c]] | x # xs \<Rightarrow> (c # x) # xs))"

text \<open>The list \<open>bands\<close> that \<open>bowery_event_process\<close> builds.\<close>

definition bowery_bands :: "node \<Rightarrow> error + json list" where
  "bowery_bands e =
     (case find_first (\<lambda>n. is_tag ''div'' n \<and> has_class ''info-title'' n) e of
        None \<Rightarrow> Inr []
      | Some artist_info \<Rightarrow>
          (let bs = (case find_first (is_tag ''a'') artist_info of
                       None \<Rightarrow> []
                     | Some cursor \<Rightarrow>
                         if get_text_strip cursor \<noteq> [] then [JStr (get_text_strip cursor)] else [])
           in case find_first (\<lambda>n. is_tag ''div'' n \<and> has_class ''supporting-acts'' n) e of
                None \<Rightarrow> Inr bs
              | Some cursor \<Rightarrow>
                  (case find_first (is_tag ''span'') cursor of
                     None \<Rightarrow> Inl AttributeError
                   | Some sp \<Rightarrow>
                       Inr (bs @ map JStr (filter (\<lambda>i. i \<noteq> [])
                              (split_comma_space (strip_with (get_text_strip sp))))))))"

definition bowery_event_process :: "env \<Rightarrow> node \<Rightarrow> error + json" where
  "bowery_event_process env e =
     (let ev = Event_init (Event_defaults (import_today env)) None None None None None in
      bind (case find_first (is_tag ''a'') e of
              None \<Rightarrow> Inr ev
            | Some cursor \<Rightarrow>
                bind (attr cursor ''href'') (\<lambda>h.
                Inr (ev\<lparr>link := ''https://www.boweryboston.com'' @ h\<rparr>))) (\<lambda>ev.
      bind (case find_first (\<lambda>n. is_tag ''a'' n \<and> has_class ''calendar-dropdown-item'' n
                                   \<and> has_class ''google'' n) e of
              None \<Rightarrow> Inr ev
            | Some cursor \<Rightarrow>
                bind (attr cursor ''data-start'') (\<lambda>ds.
                bind (dateutil_parse env (JStr ds)) (\<lambda>d.
                bind (astimezone_local env d) (\<lambda>d.
                Inr (ev\<lparr>start := d\<rparr>))))) (\<lambda>ev.
      bind (case find_first (\<lambda>n. is_tag ''p'' n \<and> has_class ''list-location'' n) e of
              None \<Rightarrow> Inl AttributeError
            | Some p \<Rightarrow> Inr (find_first (is_tag ''strong'') p)) (\<lambda>cursor.
      let ev = (case cursor of
                  None \<Rightarrow> ev
                | Some c \<Rightarrow> ev\<lparr>venue := JStr (get_text_strip c)\<rparr>) in
      bind (bowery_bands e) (\<lambda>bs.
      let ev = ev\<lparr>bands := bs\<rparr>;
          ev = (case find_first (\<lambda>n. is_tag ''a'' n \<and> has_class ''button'' n \<and> has_class ''event'' n
                                       \<and> has_class ''ticket'' n \<and> has_class ''primary'' n) e of
                  None \<Rightarrow> ev
                | Some c \<Rightarrow>
                    if lower (get_text_strip c) = ''sold out'' then ev\<lparr>soldout := True\<rparr> else ev)
      in Inr (to_json ev))))))"

fun bowery_loop :: "env \<Rightarrow> node list \<Rightarrow> json list \<Rightarrow> error + json list" where
  "bowery_loop env [] events_list = Inr events_list"
| "bowery_loop env (e # events) events_list =
     bind (bowery_event_process env e) (\<lambda>j. bowery_loop env events (events_list @ [j]))"

definition bowery_shows :: "env \<Rightarrow> error + json list" where
  "bowery_shows env =
     bind (http_get env BoweryEvents) (\<lambda>r.
     let soup = html_parser env (rtext r);
         events = find_all (\<lambda>n. is_tag ''div'' n \<and> has_class ''show-item'' n) soup
     in bowery_loop env events [])"

section \<open>The month loop and the entry point\<close>

text \<open>
  \<open>monthly_cals\<close>: the loop over \<open>range(0, 12)\<close>. The state is \<open>cur_date\<close>, the log of
  the requests sent so far and \<open>events_list\<close>; an exception ends the loop and leaves
  the log.
\<close>

fun monthly_loop ::
  "env \<Rightarrow> nat list \<Rightarrow> nat \<times> nat \<Rightarrow> request list \<Rightarrow> json list
   \<Rightarrow> request list \<times> (error + json list)" where
  "monthly_loop env [] cur_date log events_list = (log, Inr events_list)"
| "monthly_loop env (period # periods) cur_date log events_list =
     (let cur_date = (if fst cur_date + 1 > 12 then (1, snd cur_date + 1)
                      else (fst cur_date + 1, snd cur_date));
          log = log @ [MiddleEastMonth (fst cur_date) (snd cur_date)]
      in case http_get env (MiddleEastMonth (fst cur_date) (snd cur_date)) of
           Inl ex \<Rightarrow> (log, Inl ex)
         | Inr r \<Rightarrow>
      (case (if status_code r = 200 then middleeast env (rtext r) else Inr []) of
           Inl ex \<Rightarrow> (log, Inl ex)
         | Inr js \<Rightarrow>
      (let events_list = events_list @ js;
           log = log @ [ParadiseMonth period]
       in case http_get env (ParadiseMonth period) of
            Inl ex \<Rightarrow> (log, Inl ex)
          | Inr r \<Rightarrow>
      (case (if status_code r = 200 then bind (rjson r) (crossroads_parse env) else Inr []) of
            Inl ex \<Rightarrow> (log, Inl ex)
          | Inr js \<Rightarrow>
      (let events_list = events_list @ js;
           log = log @ [BrightonMonth period]
       in case http_get env (BrightonMonth period) of
            Inl ex \<Rightarrow> (log, Inl ex)
          | Inr r \<Rightarrow>
      (case (if status_code r = 200 then bind (rjson r) (crossroads_parse env) else Inr []) of
            Inl ex \<Rightarrow> (log, Inl ex)
          | Inr js \<Rightarrow>
      monthly_loop env periods cur_date log (events_list @ js)))))))"

definition monthly_cals :: "env \<Rightarrow> request list \<times> (error + json list)" where
  "monthly_cals env =
     monthly_loop env [0..<12] (month (today env), year (today env)) [] []"

text \<open>
  \<open>main\<close> of \<open>get_events.py\<close>: the list it dumps to \<open>events.json\<close>. The call of
  \<open>houseofblues\<close> is commented out.
\<close>

definition main :: "env \<Rightarrow> error + json list" where
  "main env =
     bind (bowery_shows env) (\<lambda>a.
     bind (snd (monthly_cals env)) (\<lambda>b.
     Inr (a @ b)))"

section \<open>Sample inputs\<close>

text \<open>
  Concrete inputs on which the theorems below are evaluated: an environment around a
  given network, a parser for the timestamps of the Crossroads API
  (\<open>2018-03-02T18:00:00-05:00\<close>) standing for dateutil, and a decoder that knows the
  sample pages. The local zone is five hours behind UTC.
\<close>

definition sample_parse :: "json \<Rightarrow> error + datetime" where
  "sample_parse v =
     (case v of
        JStr s \<Rightarrow>
          if length s = 25 \<and> s ! 10 = CHR ''T''
             \<and> field_int (take 2 (drop 20 s)) < 24 \<and> field_int (take 2 (drop 23 s)) < 60 then
            bind (strptime (JStr (take 10 s @ '' '' @ take 8 (drop 11 s)))) (\<lambda>d.
            Inr (d\<lparr>utcoffset := Some ((if s ! 19 = CHR ''-'' then - 1 else 1)
                   * (int (field_int (take 2 (drop 20 s))) * 3600
                      + int (field_int (take 2 (drop 23 s))) * 60))\<rparr>))
          else Inl ValueError
      | _ \<Rightarrow> Inl TypeError)"

text \<open>
  Conversion to the local zone, for a time that is in it already or is naive (taken as
  local); the sample inputs hold no other.
\<close>

definition sample_astimezone :: "datetime \<Rightarrow> error + datetime" where
  "sample_astimezone d =
     (case utcoffset d of
        None \<Rightarrow> Inr (d\<lparr>utcoffset := Some (- 18000)\<rparr>)
      | Some off \<Rightarrow> if off = - 18000 then Inr d else Inl OverflowError)"

definition sample_str :: "json \<Rightarrow> string" where
  "sample_str v = (case v of JStr s \<Rightarrow> s | JInt i \<Rightarrow> (if i < 0 then ''-'' else '''') @ decimal (nat \<bar>i\<bar>) | _ \<Rightarrow> ''?'')"

definition mideast_item :: "string \<Rightarrow> string \<Rightarrow> string \<Rightarrow> string \<Rightarrow> json" where
  "mideast_item ident v t s =
     JObj [(''id'', JStr ident), (''venue'', JStr v), (''title'', JStr t), (''start'', JStr s)]"

text \<open>A batch of five items; the venue fragment of the third never closes its tag.\<close>

definition batch5 :: "json list" where
  "batch5 =
     [mideast_item ''101'' ''<div class=venue>Upstairs</div>'' ''Band A, Band B'' ''2018-04-12 20:00:00'',
      mideast_item ''102'' ''<div class=venue>Downstairs</div>'' ''Band C'' ''2018-04-13 19:00:00'',
      mideast_item ''103'' ''<div class=venue'' ''Band D'' ''2018-04-14 19:00:00'',
      mideast_item ''104'' ''<div class=venue>Zuzu</div>'' ''Band E | Band F'' ''2018-04-15 21:30:00'',
      mideast_item ''105'' ''<div class=venue>Sonia</div>'' ''Band G'' ''2018-04-16 18:00:00'']"

definition sample_decode :: "string \<Rightarrow> error + json" where
  "sample_decode s =
     (if s = ''[]'' then Inr (JArr [])
      else if s = ''[five items]'' then Inr (JArr batch5)
      else Inl DecodeError)"

text \<open>A House of Blues item: the title names the first artist again.\<close>

definition lucy_dacus :: json where
  "lucy_dacus =
     JObj [(''title'', JStr ''Lucy Dacus''),
           (''artists'', JArr [JObj [(''name'', JStr ''Lucy Dacus'')],
                               JObj [(''name'', JStr ''And The Kids'')]]),
           (''venueName'', JStr ''House of Blues Boston''),
           (''eventDate'', JStr ''2018-04-12T19:00:00-04:00''),
           (''eventID'', JStr ''0100547''),
           (''soldOut'', JBool False)]"

text \<open>An item with no artists.\<close>

definition no_artists :: json where
  "no_artists =
     JObj [(''title'', JStr ''Gospel Brunch''),
           (''artists'', JArr []),
           (''venueName'', JStr ''House of Blues Boston''),
           (''eventDate'', JStr ''2018-04-15T10:00:00-04:00''),
           (''eventID'', JStr ''0100548''),
           (''soldOut'', JBool False)]"

definition sample_loads :: "string \<Rightarrow> error + json" where
  "sample_loads s =
     (if s = ''{hob}'' then Inr (JObj [(''result'', JArr [lucy_dacus])]) else Inl DecodeError)"

definition sample_day :: datetime where
  "sample_day = \<lparr>year = 2018, month = 3, day = 15, hour = 9, minute = 30, second = 0,
                  microsecond = 0, utcoffset = None\<rparr>"

definition sample_env :: "(request \<Rightarrow> error + response) \<Rightarrow> (string \<Rightarrow> node) \<Rightarrow> env" where
  "sample_env net soup =
     \<lparr>http_get = net, html_parser = soup, demjson_decode = sample_decode,
      json_loads = sample_loads, dateutil_parse = sample_parse,
      astimezone_local = sample_astimezone, tzlocal_utcoffset = (\<lambda>d. - 18000), py_str = sample_str,
      today = sample_day, import_today = sample_day\<rparr>"

definition no_network :: "request \<Rightarrow> error + response" where
  "no_network q = Inl RequestException"

text \<open>The record of a well-formed item of the batch, for a day of April 2018.\<close>

definition mideast_event ::
  "env \<Rightarrow> string \<Rightarrow> json list \<Rightarrow> nat \<Rightarrow> nat \<Rightarrow> nat \<Rightarrow> string \<Rightarrow> json" where
  "mideast_event env v bs d h m l =
     to_json \<lparr>venue = JStr v, bands = bs,
       start = replace_tzlocal env \<lparr>year = 2018, month = 4, day = d, hour = h, minute = m,
                 second = 0, microsecond = 0, utcoffset = None\<rparr>,
       link = l, soldout = False\<rparr>"

definition batch5_page :: string where
  "batch5_page = ''var calendar = { events: [five items], view: 1 }''"

text \<open>
  The response of the Crossroads API with one music event and no artists:
  \<^verbatim>\<open>{"event_groups":[{"events":[{"category_param":"music",\<close>
  \<^verbatim>\<open>"venue":{"title":"Paradise Rock Club"},"title":"Show","sold_out":false,"artists":[],\<close>
  \<^verbatim>\<open>"tz_adjusted_begin_date":"2018-03-02T18:00:00-05:00","permalink":"/events/x"}]}]}\<close>
\<close>

definition show_event :: json where
  "show_event =
     JObj [(''category_param'', JStr ''music''),
           (''venue'', JObj [(''title'', JStr ''Paradise Rock Club'')]),
           (''title'', JStr ''Show''),
           (''sold_out'', JBool False),
           (''artists'', JArr []),
           (''tz_adjusted_begin_date'', JStr ''2018-03-02T18:00:00-05:00''),
           (''permalink'', JStr ''/events/x'')]"

definition show_response :: json where
  "show_response = JObj [(''event_groups'', JArr [JObj [(''events'', JArr [show_event])]])]"

section \<open>The month loop as a sequence of requests\<close>

text \<open>
  Notions for stating what \<open>monthly_cals\<close> does: the requests the loop sends, in order;
  what one request adds to \<open>events_list\<close>; and the list that a sequence of such
  additions leaves, or the first exception among them.
\<close>

fun schedule :: "nat \<times> nat \<Rightarrow> nat list \<Rightarrow> request list" where
  "schedule cur_date [] = []"
| "schedule cur_date (period # periods) =
     (let cur_date = (if fst cur_date + 1 > 12 then (1, snd cur_date + 1)
                      else (fst cur_date + 1, snd cur_date))
      in MiddleEastMonth (fst cur_date) (snd cur_date) # ParadiseMonth period
         # BrightonMonth period # schedule cur_date periods)"

definition contribution :: "env \<Rightarrow> request \<Rightarrow> error + json list" where
  "contribution env q =
     bind (http_get env q) (\<lambda>r.
     if status_code r = 200 then
       (case q of
          MiddleEastMonth m y \<Rightarrow> middleeast env (rtext r)
        | _ \<Rightarrow> bind (rjson r) (crossroads_parse env))
     else Inr [])"

fun gather :: "(error + json list) list \<Rightarrow> error + json list" where
  "gather [] = Inr []"
| "gather (c # cs) = bind c (\<lambda>js. bind (gather cs) (\<lambda>rest. Inr (js @ rest)))"

text \<open>The month and year of the Middle East requests in a log.\<close>

fun month_pairs :: "request list \<Rightarrow> (nat \<times> nat) list" where
  "month_pairs [] = []"
| "month_pairs (MiddleEastMonth m y # qs) = (m, y) # month_pairs qs"
| "month_pairs (q # qs) = month_pairs qs"

text \<open>Sending a list of requests in order, each adding what it contributes.\<close>

fun run_requests ::
  "env \<Rightarrow> request list \<Rightarrow> request list \<Rightarrow> json list \<Rightarrow> request list \<times> (error + json list)" where
  "run_requests env [] log evs = (log, Inr evs)"
| "run_requests env (q # qs) log evs =
     (case contribution env q of
        Inl ex \<Rightarrow> (log @ [q], Inl ex)
      | Inr js \<Rightarrow> run_requests env qs (log @ [q]) (evs @ js))"

text \<open>
  A network for the month loop: the Middle East page of April holds the batch of five
  items, the Paradise Rock Club calendar of period 0 the one event "Show", and the
  Paradise Rock Club request of period 5 is answered with the given status and a body
  that is no JSON. Every other month calendar is empty. The House of Blues answers with
  the quoted text of a result that holds the one item above.
\<close>

definition empty_response :: json where
  "empty_response = JObj [(''event_groups'', JArr [])]"

definition sample_network :: "int \<Rightarrow> request \<Rightarrow> error + response" where
  "sample_network code q =
     (case q of
        MiddleEastMonth m y \<Rightarrow>
          Inr \<lparr>status_code = 200,
               rtext = (if m = 4 then batch5_page else ''<html>no shows</html>''),
               rjson = Inl DecodeError\<rparr>
      | ParadiseMonth p \<Rightarrow>
          if p = 5 then
            Inr \<lparr>status_code = code, rtext = ''Service Unavailable'', rjson = Inl DecodeError\<rparr>
          else
            Inr \<lparr>status_code = 200, rtext = '''',
                 rjson = Inr (if p = 0 then show_response else empty_response)\<rparr>
      | BrightonMonth p \<Rightarrow>
          Inr \<lparr>status_code = 200, rtext = '''', rjson = Inr empty_response\<rparr>
      | BoweryEvents \<Rightarrow>
          Inr \<lparr>status_code = 200, rtext = ''<html>Bowery Boston</html>'',
               rjson = Inl DecodeError\<rparr>
      | HouseOfBluesEvents a b \<Rightarrow>
          Inr \<lparr>status_code = 200, rtext = CHR 0x22 # ''{hob}'' @ [CHR 0x22],
               rjson = Inl DecodeError\<rparr>)"

section \<open>ISO 8601 timestamps and the shape of a record\<close>

text \<open>
  A reader of ISO 8601 timestamps \<open>YYYY-MM-DDTHH:MM:SS\<close>, with an optional fraction of
  six digits and an optional zone \<open>Z\<close> or \<open>+HH:MM\<close>, \<open>-HH:MM\<close> (seconds of the offset
  may follow). It accepts a string only if the date and time it denotes exist.
\<close>

definition number :: "nat \<Rightarrow> string \<Rightarrow> (nat \<times> string) option" where
  "number n s =
     (if n \<le> length s \<and> list_all is_digit (take n s)
      then Some (field_int (take n s), drop n s) else None)"

definition parse_zone :: "string \<Rightarrow> int option option" where
  "parse_zone s =
     (case s of
        [] \<Rightarrow> Some None
      | sg # r \<Rightarrow>
          if sg = CHR ''Z'' \<and> r = [] then Some (Some 0)
          else if sg = CHR ''+'' \<or> sg = CHR ''-'' then
            Option.bind (number 2 r) (\<lambda>(hh, r).
            Option.bind (literal (CHR '':'') r) (\<lambda>r.
            Option.bind (number 2 r) (\<lambda>(mm, r).
            Option.bind (if r = [] then Some (0, r)
                         else Option.bind (literal (CHR '':'') r) (number 2)) (\<lambda>(ss, r).
            if r = [] \<and> hh < 24 \<and> mm < 60 \<and> ss < 60 then
              Some (Some ((if sg = CHR ''-'' then - 1 else 1)
                          * (int hh * 3600 + int mm * 60 + int ss)))
            else None))))
          else None)"

definition parse_iso8601 :: "string \<Rightarrow> datetime option" where
  "parse_iso8601 s =
     Option.bind (number 4 s) (\<lambda>(Y, s).
     Option.bind (literal (CHR ''-'') s) (\<lambda>s.
     Option.bind (number 2 s) (\<lambda>(m, s).
     Option.bind (literal (CHR ''-'') s) (\<lambda>s.
     Option.bind (number 2 s) (\<lambda>(d, s).
     Option.bind (literal (CHR ''T'') s) (\<lambda>s.
     Option.bind (number 2 s) (\<lambda>(H, s).
     Option.bind (literal (CHR '':'') s) (\<lambda>s.
     Option.bind (number 2 s) (\<lambda>(M, s).
     Option.bind (literal (CHR '':'') s) (\<lambda>s.
     Option.bind (number 2 s) (\<lambda>(S, s).
     Option.bind (case literal (CHR ''.'') s of
                    None \<Rightarrow> Some (0, s)
                  | Some r \<Rightarrow> number 6 r) (\<lambda>(us, s).
     Option.bind (parse_zone s) (\<lambda>z.
     let dt = \<lparr>year = Y, month = m, day = d, hour = H, minute = M, second = S,
                microsecond = us, utcoffset = z\<rparr>
     in if valid_datetime dt then Some dt else None)))))))))))))"

text \<open>
  The serialized form of a record: an object with exactly the keys \<open>venue\<close>, \<open>bands\<close>,
  \<open>start\<close>, \<open>link\<close> and \<open>soldout\<close>, whose \<open>start\<close> is a string that reads as an ISO 8601
  timestamp.
\<close>

definition five_keys :: "json \<Rightarrow> bool" where
  "five_keys j =
     (case j of
        JObj kvs \<Rightarrow> map fst kvs = [''venue'', ''bands'', ''start'', ''link'', ''soldout'']
      | _ \<Rightarrow> False)"

definition start_is_iso :: "json \<Rightarrow> bool" where
  "start_is_iso j =
     (case subscript j ''start'' of
        Inr (JStr s) \<Rightarrow> parse_iso8601 s \<noteq> None
      | _ \<Rightarrow> False)"

definition event_json :: "json \<Rightarrow> bool" where
  "event_json j = (five_keys j \<and> start_is_iso j)"

text \<open>
  What is taken for granted of the environment: the datetime objects that the clock and
  the libraries hand over satisfy the invariant of the type, and the local zone is less
  than a day away from UTC.
\<close>

definition env_datetimes_valid :: "env \<Rightarrow> bool" where
  "env_datetimes_valid env =
     (valid_datetime (import_today env)
      \<and> (\<forall>v d. dateutil_parse env v = Inr d \<longrightarrow> valid_datetime d)
      \<and> (\<forall>d d'. valid_datetime d \<and> astimezone_local env d = Inr d' \<longrightarrow> valid_datetime d')
      \<and> (\<forall>d. - 86400 < tzlocal_utcoffset env d \<and> tzlocal_utcoffset env d < 86400))"

section \<open>Sample show items\<close>

text \<open>A show item with every part, as in the comment of \<open>bowery_event_process\<close>.\<close>

definition full_item :: node where
  "full_item =
     Tag ''div'' [(''class'', ''show-item'')]
       [Tag ''a'' [(''href'', ''/boston/shows/detail/347671-lucy-dacus'')] [],
        Tag ''p'' [(''class'', ''list-location'')] [Tag ''strong'' [] [Text ''The Sinclair'']],
        Tag ''div'' [(''class'', ''info-title'')]
          [Tag ''h3'' [] [Tag ''a'' [(''href'', ''/boston/shows/detail/347671-lucy-dacus'')]
             [Text ''Lucy Dacus'']]],
        Tag ''div'' [(''class'', ''supporting-acts'')]
          [Tag ''span'' [] [Text ''with And The Kids, Adult Mom'']],
        Tag ''a'' [(''class'', ''calendar-dropdown-item google''),
                   (''data-start'', ''2018-04-11T19:15:00-05:00'')] [],
        Tag ''a'' [(''class'', ''button event ticket primary''),
                   (''href'', ''http://www.axs.com/events/347671/lucy-dacus-tickets'')]
          [Text ''Sold Out'']]"

text \<open>A show item that holds nothing but its location paragraph.\<close>

definition bare_item :: node where
  "bare_item =
     Tag ''div'' [(''class'', ''show-item'')]
       [Tag ''p'' [(''class'', ''list-location'')] [Tag ''strong'' [] [Text ''Great Scott'']]]"

text \<open>A show item with a title block and a link, but no location paragraph.\<close>

definition no_location_item :: node where
  "no_location_item =
     Tag ''div'' [(''class'', ''show-item'')]
       [Tag ''a'' [(''href'', ''/boston/shows/detail/350001-some-band'')] [],
        Tag ''div'' [(''class'', ''info-title'')]
          [Tag ''h3'' [] [Tag ''a'' [(''href'', ''/boston/shows/detail/350001-some-band'')]
             [Text ''Some Band'']]]]"

definition sample_soup :: "string \<Rightarrow> node" where
  "sample_soup s =
     Tag ''[document]'' [] [Tag ''html'' [] [Tag ''body'' [] [full_item, bare_item]]]"

text \<open>An environment whose clock reads 10:45 while the module was imported at 9:30.\<close>

definition late_env :: env where
  "late_env = (sample_env (sample_network 503) sample_soup)
                \<lparr>today := sample_day\<lparr>hour := 10, minute := 45\<rparr>\<rparr>"

section \<open>The order of the aggregate as the specification words it\<close>

text \<open>
  The aggregate in the order "HTML adapter, paginated-API adapter pair, embedded-JSON
  adapter, conventional-API adapter": the Bowery records, then what the Paradise Rock
  Club and Brighton Music Hall requests of the twelve months give, then what the Middle
  East requests give, then the House of Blues records.
\<close>

fun is_crossroads :: "request \<Rightarrow> bool" where
  "is_crossroads (ParadiseMonth p) = True"
| "is_crossroads (BrightonMonth p) = True"
| "is_crossroads q = False"

fun is_middleeast :: "request \<Rightarrow> bool" where
  "is_middleeast (MiddleEastMonth m y) = True"
| "is_middleeast q = False"

definition aggregate_as_claimed :: "env \<Rightarrow> error + json list" where
  "aggregate_as_claimed env =
     (let requests = schedule (month (today env), year (today env)) [0..<12] in
      bind (bowery_shows env) (\<lambda>html.
      bind (gather (map (contribution env) (filter is_crossroads requests))) (\<lambda>paginated.
      bind (gather (map (contribution env) (filter is_middleeast requests))) (\<lambda>embedded.
      bind (houseofblues env) (\<lambda>conventional.
      Inr (html @ paginated @ embedded @ conventional))))))"

text \<open>The records of the sample pages.\<close>

definition full_item_record :: json where
  "full_item_record =
     JObj [(''venue'', JStr ''The Sinclair''),
           (''bands'', JArr [JStr ''Lucy Dacus'', JStr ''And The Kids'', JStr ''Adult Mom'']),
           (''start'', JStr ''2018-04-11T19:15:00-05:00''),
           (''link'', JStr ''https://www.boweryboston.com/boston/shows/detail/347671-lucy-dacus''),
           (''soldout'', JBool True)]"

definition bare_item_record :: json where
  "bare_item_record =
     JObj [(''venue'', JStr ''Great Scott''), (''bands'', JArr []),
           (''start'', JStr ''2018-03-15T09:30:00''), (''link'', JStr ''''),
           (''soldout'', JBool False)]"

definition show_record :: json where
  "show_record =
     JObj [(''venue'', JStr ''Paradise Rock Club''),
           (''bands'', JArr [JStr ''Show'']),
           (''start'', JStr ''2018-03-02T18:00:00-05:00''),
           (''link'', JStr ''http://events.crossroadspresents.com/events/x''),
           (''soldout'', JBool False)]"

definition lucy_dacus_record :: json where
  "lucy_dacus_record =
     JObj [(''venue'', JStr ''House of Blues Boston''),
           (''bands'', JArr [JStr ''Lucy Dacus'', JStr ''And The Kids'']),
           (''start'', JStr ''2018-04-12T19:00:00-05:00''),
           (''link'', JStr ''http://www.houseofblues.com/boston/EventDetail?tmeventid=0100547&offerid=0''),
           (''soldout'', JBool False)]"

section \<open>Exceptions as values\<close>

lemma bind_Inr [simp]: "bind (Inr v) f = f v"
  by (simp add: bind_def)

lemma bind_Inl [simp]: "bind (Inl ex) f = Inl ex"
  by (simp add: bind_def)

lemma bind_eq_Inr: "bind m f = Inr y \<longleftrightarrow> (\<exists>v. m = Inr v \<and> f v = Inr y)"
  by (cases m) simp_all

section \<open>Digits\<close>

lemma digit_char_eq: "digit_char n = c \<longleftrightarrow> take_bit 8 (48 + n) = (of_char c :: nat)"
  by (simp add: digit_char_def char_of_eq_iff)

section \<open>Item failures in the Middle East parser\<close>




lemma middleeast_decoded:
  assumes "search_events data = Some g" and "demjson_decode env g = Inr (JArr items)"
  shows "middleeast env data = Inr (middleeast_loop env items [])"
  using assms by (simp add: middleeast_def bind_def)

lemma strptime_samples:
  "strptime (JStr ''2018-04-12 20:00:00'') = Inr \<lparr>year = 2018, month = 4, day = 12, hour = 20,
     minute = 0, second = 0, microsecond = 0, utcoffset = None\<rparr>"
  "strptime (JStr ''2018-04-13 19:00:00'') = Inr \<lparr>year = 2018, month = 4, day = 13, hour = 19,
     minute = 0, second = 0, microsecond = 0, utcoffset = None\<rparr>"
  "strptime (JStr ''2018-04-15 21:30:00'') = Inr \<lparr>year = 2018, month = 4, day = 15, hour = 21,
     minute = 30, second = 0, microsecond = 0, utcoffset = None\<rparr>"
  "strptime (JStr ''2018-04-16 18:00:00'') = Inr \<lparr>year = 2018, month = 4, day = 16, hour = 18,
     minute = 0, second = 0, microsecond = 0, utcoffset = None\<rparr>"
  by code_simp+


lemma batch5_records:
  "middleeast_loop env batch5 [] =
     [mideast_event env ''Upstairs'' [JStr ''Band A'', JStr ''Band B''] 12 20 0
        ''http://www.mideastoffers.com/event/101'',
      mideast_event env ''Downstairs'' [JStr ''Band C''] 13 19 0
        ''http://www.mideastoffers.com/event/102'',
      mideast_event env ''Zuzu'' [JStr ''Band E'', JStr ''Band F''] 15 21 30
        ''http://www.mideastoffers.com/event/104'',
      mideast_event env ''Sonia'' [JStr ''Band G''] 16 18 0
        ''http://www.mideastoffers.com/event/105'']"
  by (simp add: batch5_def mideast_item_def mideast_event_def middleeast_item_def bind_def
      match_div_def Event_init_def Event_defaults_def strip_def is_space_def strptime_samples
      del: strptime.simps)



section \<open>The bands of a House of Blues item\<close>

lemma supporting_names:
  "map (\<lambda>x. subscript x ''name'') as = map (\<lambda>s. Inr (JStr s)) names \<Longrightarrow>
   (as \<noteq> [] \<longrightarrow> subscript i ''title'' = Inr (JStr t)) \<Longrightarrow>
   supporting i as bs =
     Inr (bs @ map JStr (filter (\<lambda>s. encode_ascii_ignore (lower s) \<noteq> encode_ascii_ignore (lower t)) names))"
proof (induction as arbitrary: names bs)
  case Nil
  then show ?case by simp
next
  case (Cons a as)
  then obtain s ss where n: "names = s # ss" "subscript a ''name'' = Inr (JStr s)"
     "map (\<lambda>x. subscript x ''name'') as = map (\<lambda>s. Inr (JStr s)) ss"
    by (cases names) auto
  have t: "subscript i ''title'' = Inr (JStr t)"
    using Cons.prems(2) by simp
  have "supporting i as
          (if encode_ascii_ignore (lower s) \<noteq> encode_ascii_ignore (lower t) then bs @ [JStr s] else bs)
        = Inr ((if encode_ascii_ignore (lower s) \<noteq> encode_ascii_ignore (lower t)
                then bs @ [JStr s] else bs)
               @ map JStr (filter (\<lambda>s. encode_ascii_ignore (lower s) \<noteq> encode_ascii_ignore (lower t)) ss))"
    using Cons.IH [OF n(3)] t by simp
  then show ?case
    using n t by simp
qed

lemma houseofblues_bands_names:
  assumes "subscript i ''artists'' = Inr (JArr (a # as))" "subscript a ''name'' = Inr n"
    "map (\<lambda>x. subscript x ''name'') as = map (\<lambda>s. Inr (JStr s)) names"
    "as \<noteq> [] \<longrightarrow> subscript i ''title'' = Inr (JStr t)"
  shows "houseofblues_bands i =
     Inr (n # map JStr (filter (\<lambda>s. encode_ascii_ignore (lower s) \<noteq> encode_ascii_ignore (lower t)) names))"
  using assms supporting_names [OF assms(3,4), of "[n]"] by (simp add: houseofblues_bands_def)

lemma houseofblues_item_bands:
  assumes "houseofblues_item env i = Inr j"
  shows "\<exists>bs. houseofblues_bands i = Inr bs \<and> subscript j ''bands'' = Inr (JArr bs)"
  using assms
  by (auto simp: houseofblues_item_def bind_eq_Inr to_json_def Let_def Event_init_def
      split: if_splits)

lemma lucy_dacus_bands:
  "houseofblues_bands lucy_dacus = Inr [JStr ''Lucy Dacus'', JStr ''And The Kids'']"
  by (simp add: lucy_dacus_def houseofblues_bands_def encode_ascii_ignore_def lower_def
      lower_char_def)

text \<open>
  C5. For an item of the House of Blues result whose artists carry string names (and,
  when there is more than one artist, whose title is a string), the bands are the name
  of the first artist, then the name of each further artist that, in lower case and
  without its non-ASCII characters, differs from the title treated the same way. The
  record of the item carries exactly this list. For the title "Lucy Dacus" and the
  artists "Lucy Dacus", "And The Kids" the bands are "Lucy Dacus", "And The Kids".
\<close>

theorem houseofblues_bands_first_then_others:
  "(subscript i ''artists'' = Inr (JArr (a # as)) \<and> subscript a ''name'' = Inr n
      \<and> map (\<lambda>x. subscript x ''name'') as = map (\<lambda>s. Inr (JStr s)) names
      \<and> (as \<noteq> [] \<longrightarrow> subscript i ''title'' = Inr (JStr t))
    \<longrightarrow> houseofblues_bands i =
          Inr (n # map JStr (filter (\<lambda>s. encode_ascii_ignore (lower s)
                                           \<noteq> encode_ascii_ignore (lower t)) names)))
   \<and> (houseofblues_item env i = Inr j
        \<longrightarrow> (\<exists>bs. houseofblues_bands i = Inr bs \<and> subscript j ''bands'' = Inr (JArr bs)))
   \<and> houseofblues_bands lucy_dacus = Inr [JStr ''Lucy Dacus'', JStr ''And The Kids'']"
  using houseofblues_bands_names [of i a as n names t] houseofblues_item_bands [of env i j]
    lucy_dacus_bands
  by blast

theorem houseofblues_bands_first_then_others_witness:
  "houseofblues_bands lucy_dacus =
     Inr (JStr ''Lucy Dacus'' # map JStr (filter (\<lambda>s. encode_ascii_ignore (lower s)
            \<noteq> encode_ascii_ignore (lower ''Lucy Dacus'')) [''And The Kids'', ''lucy dacus'']))
   \<and> filter (\<lambda>s. encode_ascii_ignore (lower s) \<noteq> encode_ascii_ignore (lower ''Lucy Dacus''))
        [''And The Kids'', ''lucy dacus''] = [''And The Kids'']"
proof -
  let ?i = "JObj [(''title'', JStr ''Lucy Dacus''),
                  (''artists'', JArr [JObj [(''name'', JStr ''Lucy Dacus'')],
                     JObj [(''name'', JStr ''And The Kids'')],
                     JObj [(''name'', JStr ''lucy dacus'')]])]"
  have "houseofblues_bands ?i =
     Inr (JStr ''Lucy Dacus'' # map JStr (filter (\<lambda>s. encode_ascii_ignore (lower s)
            \<noteq> encode_ascii_ignore (lower ''Lucy Dacus'')) [''And The Kids'', ''lucy dacus'']))"
    using houseofblues_bands_first_then_others
      [of ?i "JObj [(''name'', JStr ''Lucy Dacus'')]"
          "[JObj [(''name'', JStr ''And The Kids'')], JObj [(''name'', JStr ''lucy dacus'')]]"
          "JStr ''Lucy Dacus''" "[''And The Kids'', ''lucy dacus'']" "''Lucy Dacus''"]
    by simp
  moreover have "filter (\<lambda>s. encode_ascii_ignore (lower s) \<noteq> encode_ascii_ignore (lower ''Lucy Dacus''))
        [''And The Kids'', ''lucy dacus''] = [''And The Kids'']"
    by code_simp
  moreover have "houseofblues_bands ?i = houseofblues_bands lucy_dacus"
    by code_simp
  ultimately show ?thesis
    by simp
qed

section \<open>A House of Blues item without artists\<close>

lemma houseofblues_item_empty:
  "subscript i ''artists'' = Inr (JArr []) \<Longrightarrow> houseofblues_item env i = Inl IndexError"
  by (simp add: houseofblues_item_def houseofblues_bands_def)

lemma houseofblues_loop_raises:
  "i \<in> set result \<Longrightarrow> houseofblues_item env i = Inl ex \<Longrightarrow>
   \<exists>ex'. houseofblues_loop env result acc = Inl ex'"
proof (induction result arbitrary: acc)
  case Nil
  then show ?case by simp
next
  case (Cons x xs)
  show ?case
  proof (cases "houseofblues_item env x")
    case (Inl e)
    then show ?thesis by simp
  next
    case (Inr j)
    with Cons.prems have "i \<in> set xs" by auto
    from Cons.IH [OF this Cons.prems(2)] Inr show ?thesis by simp
  qed
qed

lemma houseofblues_item_artists:
  "houseofblues_item env i = Inr j \<Longrightarrow> \<exists>a as. subscript i ''artists'' = Inr (JArr (a # as))"
  apply (auto simp: houseofblues_item_def houseofblues_bands_def bind_eq_Inr)
  subgoal for bs v x a b y
    by (cases v rule: pop0.cases) auto
  done

lemma houseofblues_loop_items:
  "houseofblues_loop env result acc = Inr out \<Longrightarrow>
   \<forall>i \<in> set result. \<exists>j. houseofblues_item env i = Inr j"
  by (induction result arbitrary: acc) (auto simp: bind_eq_Inr)

text \<open>
  C10. An item of the House of Blues result whose artists array is empty raises
  IndexError (\<open>pop\<close> from an empty list) and gives no record; the loop over the result
  has no handler, so it raises as soon as the result holds such an item. When the loop
  returns, every item had an artists array with a first element.
\<close>

theorem houseofblues_needs_an_artist:
  "(subscript i ''artists'' = Inr (JArr []) \<longrightarrow> houseofblues_item env i = Inl IndexError)
   \<and> (i \<in> set result \<and> subscript i ''artists'' = Inr (JArr [])
        \<longrightarrow> (\<exists>ex. houseofblues_loop env result [] = Inl ex))
   \<and> (houseofblues_loop env result [] = Inr out
        \<longrightarrow> (\<forall>x \<in> set result. \<exists>a as. subscript x ''artists'' = Inr (JArr (a # as))))"
  using houseofblues_item_empty [of i env] houseofblues_loop_raises [of i result env IndexError "[]"]
    houseofblues_loop_items [of env result "[]" out] houseofblues_item_artists [of env]
  by blast

theorem houseofblues_needs_an_artist_witness:
  "houseofblues_item (sample_env no_network (\<lambda>s. Text [])) no_artists = Inl IndexError
   \<and> (\<exists>ex. houseofblues_loop (sample_env no_network (\<lambda>s. Text [])) [lucy_dacus, no_artists] []
             = Inl ex)"
proof -
  have a: "subscript no_artists ''artists'' = Inr (JArr [])"
    by (simp add: no_artists_def)
  have m: "no_artists \<in> set [lucy_dacus, no_artists]"
    by simp
  from a m show ?thesis
    using houseofblues_needs_an_artist
      [of no_artists "sample_env no_network (\<lambda>s. Text [])" "[lucy_dacus, no_artists]"]
    by blast
qed

section \<open>The bands of a Crossroads event\<close>

lemma map_err_Inr: "map f xs = map Inr ys \<Longrightarrow> map_err f xs = Inr ys"
proof (induction xs arbitrary: ys)
  case Nil
  then show ?case by simp
next
  case (Cons x xs)
  then obtain z zs where "ys = z # zs" "f x = Inr z" "map f xs = map Inr zs"
    by (cases ys) auto
  with Cons.IH show ?case by simp
qed

lemma crossroads_bands_artists:
  assumes "subscript e ''artists'' = Inr (JArr as)" "as \<noteq> []"
    "map (\<lambda>x. subscript x ''title'') as = map Inr ts"
  shows "crossroads_bands e = Inr ts"
  using assms by (simp add: crossroads_bands_def map_err_Inr)

lemma crossroads_bands_title:
  assumes "subscript e ''artists'' = Inr (JArr [])" "subscript e ''title'' = Inr t"
  shows "crossroads_bands e = Inr [t]"
  using assms by (simp add: crossroads_bands_def)

lemma crossroads_event_music:
  assumes "subscript e ''category_param'' = Inr (JStr ''music'')"
    "subscript e ''venue'' = Inr v" "subscript v ''title'' = Inr vt"
    "crossroads_bands e = Inr bs"
    "subscript e ''tz_adjusted_begin_date'' = Inr dv" "dateutil_parse env dv = Inr d"
    "subscript e ''permalink'' = Inr (JStr p)" "subscript e ''sold_out'' = Inr so"
  shows "crossroads_event env e =
     Inr [to_json \<lparr>venue = vt, bands = bs, start = d,
            link = ''http://events.crossroadspresents.com'' @ p, soldout = truthy so\<rparr>]"
  using assms by (simp add: crossroads_event_def Event_init_def Event_defaults_def Let_def)

lemma crossroads_event_bands:
  assumes "crossroads_event env e = Inr [j]"
  shows "subscript e ''category_param'' = Inr (JStr ''music'')
     \<and> (\<exists>bs. crossroads_bands e = Inr bs \<and> subscript j ''bands'' = Inr (JArr bs))"
  using assms
  by (auto simp: crossroads_event_def bind_eq_Inr to_json_def Let_def Event_init_def
      split: if_splits)

lemma show_response_parse:
  assumes "dateutil_parse env (JStr ''2018-03-02T18:00:00-05:00'') = Inr d"
  shows "crossroads_parse env show_response =
     Inr [to_json \<lparr>venue = JStr ''Paradise Rock Club'', bands = [JStr ''Show''], start = d,
            link = ''http://events.crossroadspresents.com/events/x'', soldout = False\<rparr>]"
  using assms
  by (simp add: crossroads_parse_def show_response_def show_event_def crossroads_event_def
      crossroads_bands_def Event_init_def Event_defaults_def Let_def)

lemma sample_parse_show:
  "sample_parse (JStr ''2018-03-02T18:00:00-05:00'') =
     Inr \<lparr>year = 2018, month = 3, day = 2, hour = 18, minute = 0, second = 0,
          microsecond = 0, utcoffset = Some (- 18000)\<rparr>"
  by code_simp

lemma isoformat_show:
  "isoformat \<lparr>year = 2018, month = 3, day = 2, hour = 18, minute = 0, second = 0,
     microsecond = 0, utcoffset = Some (- 18000)\<rparr> = ''2018-03-02T18:00:00-05:00''"
  by (simp add: isoformat_def zpad_def format_offset_def digit_char_eq)

text \<open>
  C6. For an event of the Crossroads API whose artists are a non-empty list of objects
  with titles, the bands are these titles in order; when the artists list is empty the
  bands are the event's own title alone. A record comes only from an event whose
  \<open>category_param\<close> is "music", and it carries exactly these bands together with the
  venue title, the parsed start, the base URL followed by the permalink, and the truth
  value of \<open>sold_out\<close>. The response with the one event "Show" gives one record: venue
  "Paradise Rock Club", bands "Show", the link ending in \<open>/events/x\<close>, not sold out.
\<close>

theorem crossroads_bands_artists_or_title:
  "(subscript e ''artists'' = Inr (JArr as) \<and> as \<noteq> []
      \<and> map (\<lambda>x. subscript x ''title'') as = map Inr ts
    \<longrightarrow> crossroads_bands e = Inr ts)
   \<and> (subscript e ''artists'' = Inr (JArr []) \<and> subscript e ''title'' = Inr t
    \<longrightarrow> crossroads_bands e = Inr [t])
   \<and> (crossroads_event env e = Inr [j]
    \<longrightarrow> subscript e ''category_param'' = Inr (JStr ''music'')
        \<and> (\<exists>bs. crossroads_bands e = Inr bs \<and> subscript j ''bands'' = Inr (JArr bs)))
   \<and> (subscript e ''category_param'' = Inr (JStr ''music'')
      \<and> subscript e ''venue'' = Inr v \<and> subscript v ''title'' = Inr vt
      \<and> crossroads_bands e = Inr bs
      \<and> subscript e ''tz_adjusted_begin_date'' = Inr dv \<and> dateutil_parse env dv = Inr d
      \<and> subscript e ''permalink'' = Inr (JStr p) \<and> subscript e ''sold_out'' = Inr so
    \<longrightarrow> crossroads_event env e =
          Inr [to_json \<lparr>venue = vt, bands = bs, start = d,
                 link = ''http://events.crossroadspresents.com'' @ p, soldout = truthy so\<rparr>])
   \<and> (dateutil_parse env (JStr ''2018-03-02T18:00:00-05:00'') = Inr d'
    \<longrightarrow> crossroads_parse env show_response =
          Inr [to_json \<lparr>venue = JStr ''Paradise Rock Club'', bands = [JStr ''Show''], start = d',
                 link = ''http://events.crossroadspresents.com/events/x'', soldout = False\<rparr>])"
  using crossroads_bands_artists [of e as ts] crossroads_bands_title [of e t]
    crossroads_event_bands [of env e j] crossroads_event_music [of e v vt bs dv env d p so]
    show_response_parse [of env d']
  by blast

theorem crossroads_bands_artists_or_title_witness:
  "crossroads_parse (sample_env no_network (\<lambda>s. Text [])) show_response =
     Inr [JObj [(''venue'', JStr ''Paradise Rock Club''),
                (''bands'', JArr [JStr ''Show'']),
                (''start'', JStr ''2018-03-02T18:00:00-05:00''),
                (''link'', JStr ''http://events.crossroadspresents.com/events/x''),
                (''soldout'', JBool False)]]"
proof -
  let ?env = "sample_env no_network (\<lambda>s. Text [])"
  let ?d = "\<lparr>year = 2018, month = 3, day = 2, hour = 18, minute = 0, second = 0,
              microsecond = 0, utcoffset = Some (- 18000)\<rparr>"
  have p: "dateutil_parse ?env (JStr ''2018-03-02T18:00:00-05:00'') = Inr ?d"
    by (simp add: sample_env_def sample_parse_show)
  from p crossroads_bands_artists_or_title [where env = ?env and d' = ?d]
  have "crossroads_parse ?env show_response =
          Inr [to_json \<lparr>venue = JStr ''Paradise Rock Club'', bands = [JStr ''Show''], start = ?d,
                 link = ''http://events.crossroadspresents.com/events/x'', soldout = False\<rparr>]"
    by blast
  then show ?thesis
    by (simp add: to_json_def isoformat_show)
qed

section \<open>The month loop\<close>

lemma bind_return [simp]: "bind m Inr = m"
  by (cases m) simp_all

lemma monthly_loop_run:
  "monthly_loop env periods cur log evs = run_requests env (schedule cur periods) log evs"
proof (induction periods arbitrary: cur log evs)
  case Nil
  then show ?case by simp
next
  case (Cons p ps)
  show ?case
    by (simp add: Cons.IH contribution_def Let_def bind_def split: sum.splits)
qed

lemma run_requests_result:
  "snd (run_requests env qs log evs) =
     bind (gather (map (contribution env) qs)) (\<lambda>js. Inr (evs @ js))"
  by (induction qs arbitrary: log evs) (auto simp: bind_def split: sum.splits)

lemma run_requests_log_prefix:
  "\<exists>n. fst (run_requests env qs log evs) = log @ take n qs"
proof (induction qs arbitrary: log evs)
  case Nil
  then show ?case by simp
next
  case (Cons q qs)
  show ?case
  proof (cases "contribution env q")
    case (Inl ex)
    then have "fst (run_requests env (q # qs) log evs) = log @ take 1 (q # qs)"
      by simp
    then show ?thesis by blast
  next
    case (Inr js)
    from Cons.IH [of "log @ [q]" "evs @ js"]
    obtain n where "fst (run_requests env qs (log @ [q]) (evs @ js)) = (log @ [q]) @ take n qs"
      by blast
    with Inr have "fst (run_requests env (q # qs) log evs) = log @ take (Suc n) (q # qs)"
      by simp
    then show ?thesis by blast
  qed
qed

lemma run_requests_log_full:
  "run_requests env qs log evs = (log', Inr out) \<Longrightarrow> log' = log @ qs"
proof (induction qs arbitrary: log evs)
  case Nil
  then show ?case by simp
next
  case (Cons q qs)
  then obtain js where c: "contribution env q = Inr js"
    by (cases "contribution env q") auto
  with Cons.prems have "run_requests env qs (log @ [q]) (evs @ js) = (log', Inr out)"
    by simp
  from Cons.IH [OF this] show ?case by simp
qed

lemma gather_removeAll:
  "c q = Inr [] \<Longrightarrow> gather (map c (removeAll q qs)) = gather (map c qs)"
  by (induction qs) auto

lemma contribution_failed:
  "http_get env q = Inr r \<Longrightarrow> status_code r \<noteq> 200 \<Longrightarrow> contribution env q = Inr []"
  by (simp add: contribution_def)

lemma month_pairs_schedule:
  "1 \<le> m \<Longrightarrow> m \<le> 12 \<Longrightarrow>
   month_pairs (schedule (m, y) periods) =
     map (\<lambda>k. ((m + k) mod 12 + 1, y + (m + k) div 12)) [0..<length periods]"
proof (induction periods arbitrary: m y)
  case Nil
  then show ?case by simp
next
  case (Cons p ps)
  have shift: "[0..<Suc (length ps)] = 0 # map Suc [0..<length ps]"
    by (simp add: upt_conv_Cons map_Suc_upt del: upt_Suc)
  show ?case
  proof (cases "m = 12")
    case True
    have "month_pairs (schedule (1, Suc y) ps) =
            map (\<lambda>k. ((1 + k) mod 12 + 1, Suc y + (1 + k) div 12)) [0..<length ps]"
      using Cons.IH [of 1 "Suc y"] by simp
    moreover have "\<And>x::nat. Suc (Suc x div 12) = (13 + x) div 12"
      by presburger
    ultimately show ?thesis using True
      by (simp add: shift comp_def del: upt_Suc)
  next
    case False
    then have "m + 1 \<le> 12" using Cons.prems by simp
    from Cons.IH [of "m + 1" y] this
    have "month_pairs (schedule (m + 1, y) ps) =
            map (\<lambda>k. ((m + 1 + k) mod 12 + 1, y + (m + 1 + k) div 12)) [0..<length ps]"
      by simp
    then show ?thesis using False Cons.prems
      by (simp add: shift comp_def del: upt_Suc)
  qed
qed

lemma length_schedule: "length (schedule cur periods) = 3 * length periods"
  by (induction periods arbitrary: cur) (simp_all add: Let_def)

lemma monthly_cals_result:
  "snd (monthly_cals env) =
     gather (map (contribution env) (schedule (month (today env), year (today env)) [0..<12]))"
  by (simp add: monthly_cals_def monthly_loop_run run_requests_result)

lemma monthly_cals_log:
  assumes "monthly_cals env = (log, Inr out)"
  shows "log = schedule (month (today env), year (today env)) [0..<12]"
  using assms run_requests_log_full [of env _ "[]" "[]" log out]
  by (simp add: monthly_cals_def monthly_loop_run)

lemma monthly_cals_log_prefix:
  "\<exists>n. fst (monthly_cals env) = take n (schedule (month (today env), year (today env)) [0..<12])"
  using run_requests_log_prefix [of env _ "[]" "[]"]
  by (simp add: monthly_cals_def monthly_loop_run)

lemma successor_month:
  fixes a y :: nat
  shows "((a + Suc k) mod 12 + 1, y + (a + Suc k) div 12) =
     (if (a + k) mod 12 + 1 = 12 then (1, y + (a + k) div 12 + 1)
      else ((a + k) mod 12 + 1 + 1, y + (a + k) div 12))"
  by (simp add: mod_Suc div_Suc)

lemma upt12: "[0..<12] = [0, 1, 2, 3, 4, 5, 6, 7, 8, 9, 10, 11::nat]"
  by code_simp

text \<open>The sample network, request by request.\<close>

lemma schedule_sample:
  "schedule (3, 2018) [0..<12] =
     [MiddleEastMonth 4 2018, ParadiseMonth 0, BrightonMonth 0,
      MiddleEastMonth 5 2018, ParadiseMonth 1, BrightonMonth 1,
      MiddleEastMonth 6 2018, ParadiseMonth 2, BrightonMonth 2,
      MiddleEastMonth 7 2018, ParadiseMonth 3, BrightonMonth 3,
      MiddleEastMonth 8 2018, ParadiseMonth 4, BrightonMonth 4,
      MiddleEastMonth 9 2018, ParadiseMonth 5, BrightonMonth 5,
      MiddleEastMonth 10 2018, ParadiseMonth 6, BrightonMonth 6,
      MiddleEastMonth 11 2018, ParadiseMonth 7, BrightonMonth 7,
      MiddleEastMonth 12 2018, ParadiseMonth 8, BrightonMonth 8,
      MiddleEastMonth 1 2019, ParadiseMonth 9, BrightonMonth 9,
      MiddleEastMonth 2 2019, ParadiseMonth 10, BrightonMonth 10,
      MiddleEastMonth 3 2019, ParadiseMonth 11, BrightonMonth 11]"
  by code_simp

lemma contribution_mideast_april:
  "contribution (sample_env (sample_network code) soup) (MiddleEastMonth 4 y) =
     Inr (middleeast_loop (sample_env (sample_network code) soup) batch5 [])"
proof -
  have s: "search_events batch5_page = Some ''[five items]''"
    by (simp add: batch5_page_def)
  have d: "demjson_decode (sample_env (sample_network code) soup) ''[five items]'' = Inr (JArr batch5)"
    by (simp add: sample_env_def sample_decode_def)
  show ?thesis
    using middleeast_decoded [OF s d]
    by (simp add: contribution_def sample_env_def sample_network_def)
qed

lemma search_no_shows: "search_events ''<html>no shows</html>'' = None"
  by simp

lemma contribution_mideast_other:
  "m \<noteq> 4 \<Longrightarrow> contribution (sample_env (sample_network code) soup) (MiddleEastMonth m y) = Inr []"
  by (simp add: contribution_def sample_env_def sample_network_def middleeast_def search_no_shows
      del: search_events.simps)

lemma crossroads_parse_empty: "crossroads_parse env empty_response = Inr []"
  by (simp add: crossroads_parse_def empty_response_def)

lemma contribution_paradise_0:
  "contribution (sample_env (sample_network code) soup) (ParadiseMonth 0) =
     crossroads_parse (sample_env (sample_network code) soup) show_response"
  by (simp add: contribution_def sample_env_def sample_network_def)

lemma contribution_paradise_other:
  "p \<noteq> 0 \<Longrightarrow> p \<noteq> 5 \<Longrightarrow>
   contribution (sample_env (sample_network code) soup) (ParadiseMonth p) = Inr []"
  by (simp add: contribution_def sample_env_def sample_network_def crossroads_parse_empty)

lemma contribution_brighton:
  "contribution (sample_env (sample_network code) soup) (BrightonMonth p) = Inr []"
  by (simp add: contribution_def sample_env_def sample_network_def crossroads_parse_empty)

lemmas sample_contributions =
  contribution_mideast_april contribution_mideast_other contribution_paradise_0
  contribution_paradise_other contribution_brighton

section \<open>A failed request in the month loop\<close>

lemma middleeast_item_net [simp]:
  "middleeast_item (env\<lparr>http_get := h\<rparr>) i = middleeast_item env i"
  by (simp add: middleeast_item_def replace_tzlocal_def)

lemma middleeast_loop_net [simp]:
  "middleeast_loop (env\<lparr>http_get := h\<rparr>) items acc = middleeast_loop env items acc"
  by (induction items arbitrary: acc) simp_all

lemma middleeast_net [simp]: "middleeast (env\<lparr>http_get := h\<rparr>) data = middleeast env data"
  by (cases "search_events data") (simp_all add: middleeast_def)

lemma crossroads_event_net [simp]:
  "crossroads_event (env\<lparr>http_get := h\<rparr>) e = crossroads_event env e"
  by (simp add: crossroads_event_def cong: if_cong)

lemma crossroads_events_net [simp]:
  "crossroads_events (env\<lparr>http_get := h\<rparr>) es acc = crossroads_events env es acc"
proof (induction es arbitrary: acc)
  case Nil
  then show ?case by simp
next
  case (Cons e es)
  have "\<And>js. crossroads_events (env\<lparr>http_get := h\<rparr>) es (acc @ js) = crossroads_events env es (acc @ js)"
    by (rule Cons.IH)
  then show ?case by simp
qed

lemma crossroads_groups_net [simp]:
  "crossroads_groups (env\<lparr>http_get := h\<rparr>) gs acc = crossroads_groups env gs acc"
proof (induction gs arbitrary: acc)
  case Nil
  then show ?case by simp
next
  case (Cons g gs)
  have "crossroads_groups (env\<lparr>http_get := h\<rparr>) gs = crossroads_groups env gs"
    by (rule ext) (rule Cons.IH)
  then show ?case by simp
qed

lemma crossroads_parse_net [simp]:
  "crossroads_parse (env\<lparr>http_get := h\<rparr>) = crossroads_parse env"
  by (rule ext) (simp add: crossroads_parse_def)

lemma contribution_other_request:
  "q' \<noteq> q \<Longrightarrow> contribution (env\<lparr>http_get := (http_get env)(q := x)\<rparr>) q' = contribution env q'"
  by (simp add: contribution_def cong: if_cong request.case_cong)

lemma show_response_sample:
  "crossroads_parse (sample_env net soup) show_response =
     Inr [JObj [(''venue'', JStr ''Paradise Rock Club''),
                (''bands'', JArr [JStr ''Show'']),
                (''start'', JStr ''2018-03-02T18:00:00-05:00''),
                (''link'', JStr ''http://events.crossroadspresents.com/events/x''),
                (''soldout'', JBool False)]]"
proof -
  have "dateutil_parse (sample_env net soup) (JStr ''2018-03-02T18:00:00-05:00'') =
      Inr \<lparr>year = 2018, month = 3, day = 2, hour = 18, minute = 0, second = 0,
              microsecond = 0, utcoffset = Some (- 18000)\<rparr>"
    by (simp add: sample_env_def sample_parse_show)
  from show_response_parse [OF this] show ?thesis
    by (simp add: to_json_def isoformat_show)
qed

text \<open>
  C3. In \<open>monthly_cals\<close> a request answered with a status other than 200 adds no
  record and raises nothing: the body of the response is not looked at. The list the
  loop returns is what the requests of the twelve months add in order, each from its
  own response alone, so it is the list the other requests give without the failed one;
  changing the answer to one request leaves what every other request adds as it was.
\<close>

theorem monthly_cals_skips_failed_request:
  "(http_get env q = Inr r \<and> status_code r \<noteq> 200 \<longrightarrow>
      contribution env q = Inr []
      \<and> snd (monthly_cals env) =
          gather (map (contribution env)
            (removeAll q (schedule (month (today env), year (today env)) [0..<12]))))
   \<and> snd (monthly_cals env) =
        gather (map (contribution env) (schedule (month (today env), year (today env)) [0..<12]))
   \<and> (q' \<noteq> q \<longrightarrow>
        contribution (env\<lparr>http_get := (http_get env)(q := x)\<rparr>) q' = contribution env q')"
  using contribution_failed [of env q r] monthly_cals_result [of env]
    gather_removeAll [of "contribution env" q] contribution_other_request [of q' q env x]
  by simp

theorem monthly_cals_skips_failed_request_witness:
  "snd (monthly_cals (sample_env (sample_network 503) (\<lambda>s. Text []))) =
     Inr (middleeast_loop (sample_env (sample_network 503) (\<lambda>s. Text [])) batch5 []
          @ [JObj [(''venue'', JStr ''Paradise Rock Club''),
                   (''bands'', JArr [JStr ''Show'']),
                   (''start'', JStr ''2018-03-02T18:00:00-05:00''),
                   (''link'', JStr ''http://events.crossroadspresents.com/events/x''),
                   (''soldout'', JBool False)]])"
proof -
  let ?env = "sample_env (sample_network 503) (\<lambda>s. Text [])"
  let ?r = "\<lparr>status_code = 503, rtext = ''Service Unavailable'', rjson = Inl DecodeError\<rparr>"
  have g: "http_get ?env (ParadiseMonth 5) = Inr ?r"
    by (simp add: sample_env_def sample_network_def)
  have s: "status_code ?r \<noteq> 200"
    by simp
  have t: "month (today ?env) = 3" "year (today ?env) = 2018"
    by (simp_all add: sample_env_def sample_day_def)
  from g s monthly_cals_skips_failed_request [of ?env "ParadiseMonth 5" ?r]
  have "snd (monthly_cals ?env) =
          gather (map (contribution ?env)
            (removeAll (ParadiseMonth 5) (schedule (month (today ?env), year (today ?env)) [0..<12])))"
    by blast
  then show ?thesis
    by (simp add: t schedule_sample sample_contributions show_response_sample)
qed

section \<open>The months of the loop\<close>

lemma length_month_pairs_schedule: "length (month_pairs (schedule cur periods)) = length periods"
  by (induction periods arbitrary: cur) (simp_all add: Let_def)

lemma monthly_cals_months:
  assumes "1 \<le> month (today env)" "month (today env) \<le> 12" "monthly_cals env = (log, Inr out)"
  shows "month_pairs log =
     map (\<lambda>k. ((month (today env) + k) mod 12 + 1, year (today env) + (month (today env) + k) div 12))
       [0..<12]"
  using monthly_cals_log [OF assms(3)] month_pairs_schedule [OF assms(1,2), of "year (today env)" "[0..<12]"]
  by simp

lemma months_first:
  assumes "1 \<le> (m::nat)" "m \<le> 12"
  shows "((m + 0) mod 12 + 1, y + (m + 0) div 12) = (if m = 12 then (1, y + 1) else (m + 1, (y::nat)))"
  using assms by auto

text \<open>
  C7. When \<open>monthly_cals\<close> returns, its loop has run twelve times and sent 36 requests.
  The months and years it asked the Middle East calendar for are the twelve calendar
  months after today's: the first is the month after today's month, and each next one is
  the month after the one before, December being followed by January of the next year.
  An exception ends the loop early and the requests sent are a prefix of the same list.
\<close>

theorem monthly_cals_next_twelve_months:
  "(1 \<le> month (today env) \<and> month (today env) \<le> 12 \<and> monthly_cals env = (log, Inr out) \<longrightarrow>
      length log = 36 \<and> length (month_pairs log) = 12
      \<and> month_pairs log =
          map (\<lambda>k. ((month (today env) + k) mod 12 + 1,
                     year (today env) + (month (today env) + k) div 12)) [0..<12]
      \<and> month_pairs log ! 0 =
          (if month (today env) = 12 then (1, year (today env) + 1)
           else (month (today env) + 1, year (today env)))
      \<and> (\<forall>k<11. month_pairs log ! Suc k =
            (if fst (month_pairs log ! k) = 12 then (1, snd (month_pairs log ! k) + 1)
             else (fst (month_pairs log ! k) + 1, snd (month_pairs log ! k)))))
   \<and> (\<exists>n. fst (monthly_cals env) =
          take n (schedule (month (today env), year (today env)) [0..<12]))"
proof -
  have "length log = 36 \<and> length (month_pairs log) = 12
      \<and> month_pairs log =
          map (\<lambda>k. ((month (today env) + k) mod 12 + 1,
                     year (today env) + (month (today env) + k) div 12)) [0..<12]
      \<and> month_pairs log ! 0 =
          (if month (today env) = 12 then (1, year (today env) + 1)
           else (month (today env) + 1, year (today env)))
      \<and> (\<forall>k<11. month_pairs log ! Suc k =
            (if fst (month_pairs log ! k) = 12 then (1, snd (month_pairs log ! k) + 1)
             else (fst (month_pairs log ! k) + 1, snd (month_pairs log ! k))))"
    if h: "1 \<le> month (today env)" "month (today env) \<le> 12" "monthly_cals env = (log, Inr out)"
  proof -
    let ?m = "month (today env)" and ?y = "year (today env)"
    let ?f = "\<lambda>k. ((?m + k) mod 12 + 1, ?y + (?m + k) div 12)"
    have l: "log = schedule (?m, ?y) [0..<12]"
      by (rule monthly_cals_log [OF h(3)])
    have p: "month_pairs log = map ?f [0..<12]"
      by (rule monthly_cals_months [OF h])
    have n: "month_pairs log ! k = ?f k" if "k < 12" for k
      using that by (simp add: p del: upt_Suc)
    have a: "length log = 36"
      by (simp add: l length_schedule)
    have b: "length (month_pairs log) = 12"
      by (simp add: p)
    have c: "month_pairs log ! 0 = (if ?m = 12 then (1, ?y + 1) else (?m + 1, ?y))"
      using n [of 0] months_first [OF h(1,2), of ?y] by simp
    have d: "month_pairs log ! Suc k =
            (if fst (month_pairs log ! k) = 12 then (1, snd (month_pairs log ! k) + 1)
             else (fst (month_pairs log ! k) + 1, snd (month_pairs log ! k)))" if "k < 11" for k
      using that n [of k] n [of "Suc k"] successor_month [of ?m k ?y] by simp
    from a b p c d show ?thesis by blast
  qed
  then show ?thesis
    using monthly_cals_log_prefix [of env] by blast
qed

lemma contribution_paradise_5:
  "code \<noteq> 200 \<Longrightarrow> contribution (sample_env (sample_network code) soup) (ParadiseMonth 5) = Inr []"
  by (simp add: contribution_def sample_env_def sample_network_def)

lemma sample_today [simp]:
  "month (today (sample_env net soup)) = 3" "year (today (sample_env net soup)) = 2018"
  by (simp_all add: sample_env_def sample_day_def)

lemma monthly_cals_sample:
  "snd (monthly_cals (sample_env (sample_network 503) soup)) =
     Inr (middleeast_loop (sample_env (sample_network 503) soup) batch5 []
          @ [JObj [(''venue'', JStr ''Paradise Rock Club''),
                   (''bands'', JArr [JStr ''Show'']),
                   (''start'', JStr ''2018-03-02T18:00:00-05:00''),
                   (''link'', JStr ''http://events.crossroadspresents.com/events/x''),
                   (''soldout'', JBool False)]])"
  by (simp add: monthly_cals_result schedule_sample sample_contributions contribution_paradise_5
      show_response_sample)

theorem monthly_cals_next_twelve_months_witness:
  "month_pairs (fst (monthly_cals (sample_env (sample_network 503) (\<lambda>s. Text [])))) =
     [(4, 2018), (5, 2018), (6, 2018), (7, 2018), (8, 2018), (9, 2018), (10, 2018),
      (11, 2018), (12, 2018), (1, 2019), (2, 2019), (3, 2019)]
   \<and> length (fst (monthly_cals (sample_env (sample_network 503) (\<lambda>s. Text [])))) = 36"
proof -
  let ?env = "sample_env (sample_network 503) (\<lambda>s. Text [])"
  obtain out where "snd (monthly_cals ?env) = Inr out"
    using monthly_cals_sample by blast
  then have r: "monthly_cals ?env = (fst (monthly_cals ?env), Inr out)"
    by (cases "monthly_cals ?env") simp
  have m: "1 \<le> month (today ?env)" "month (today ?env) \<le> 12"
    by simp_all
  from monthly_cals_next_twelve_months [of ?env "fst (monthly_cals ?env)" out] m r
  have "length (fst (monthly_cals ?env)) = 36 \<and>
        month_pairs (fst (monthly_cals ?env)) =
          map (\<lambda>k. ((month (today ?env) + k) mod 12 + 1,
                     year (today ?env) + (month (today ?env) + k) div 12)) [0..<12]"
    by blast
  then show ?thesis
    by (simp add: upt12)
qed

section \<open>Show items with missing parts\<close>

lemma descendants_bare_item:
  "descendants bare_item =
     [Tag ''p'' [(''class'', ''list-location'')] [Tag ''strong'' [] [Text ''Great Scott'']],
      Tag ''strong'' [] [Text ''Great Scott''], Text ''Great Scott'']"
  by (simp add: bare_item_def)

lemma bowery_bare_item:
  "bowery_event_process env bare_item =
     Inr (to_json \<lparr>venue = JStr ''Great Scott'', bands = [], start = import_today env,
            link = '''', soldout = False\<rparr>)"
  by (simp add: bowery_event_process_def descendants_bare_item find_first_def has_class_def
      is_space_def bowery_bands_def get_text_strip_def strip_def Event_init_def
      Event_defaults_def Let_def)

lemma bowery_no_location_item:
  "bowery_event_process env no_location_item = Inl AttributeError"
  by (simp add: bowery_event_process_def no_location_item_def find_first_def has_class_def
      is_space_def bowery_bands_def get_text_strip_def strip_def Event_init_def
      Event_defaults_def Let_def)

lemma bowery_no_location:
  assumes "find_first (\<lambda>n. is_tag ''p'' n \<and> has_class ''list-location'' n) e = None"
  shows "\<exists>ex. bowery_event_process env e = Inl ex"
  using assms
  by (auto simp: bowery_event_process_def bind_def Let_def split: sum.splits option.splits)

lemma late_clock: "today late_env \<noteq> import_today late_env"
  by (simp add: late_env_def sample_env_def sample_day_def)

lemma isoformat_sample_day: "isoformat sample_day = ''2018-03-15T09:30:00''"
  by (simp add: sample_day_def isoformat_def zpad_def digit_char_eq)

lemma bowery_bare_item_late:
  "bowery_event_process late_env bare_item =
     Inr (JObj [(''venue'', JStr ''Great Scott''), (''bands'', JArr []),
                (''start'', JStr ''2018-03-15T09:30:00''), (''link'', JStr ''''),
                (''soldout'', JBool False)])"
  by (simp add: bowery_bare_item to_json_def late_env_def sample_env_def isoformat_sample_day)

text \<open>
  C8. The lookups of \<open>bowery_event_process\<close> tolerate a missing first link, calendar
  link, title block, supporting acts and ticket button: the item that holds only its
  location paragraph gives a record with the defaults. The location paragraph is
  different: \<open>e.find('p', class_='list-location').find('strong')\<close> calls \<open>find\<close> on the
  result of the first lookup before the test \<open>if cursor\<close>, so a show item without a
  location paragraph raises (AttributeError for the sample item) and gives no record.
\<close>

theorem bowery_missing_location_raises:
  "(find_first (\<lambda>n. is_tag ''p'' n \<and> has_class ''list-location'' n) e = None
      \<longrightarrow> (\<exists>ex. bowery_event_process env e = Inl ex))
   \<and> bowery_event_process env no_location_item = Inl AttributeError
   \<and> bowery_event_process env bare_item =
       Inr (to_json \<lparr>venue = JStr ''Great Scott'', bands = [], start = import_today env,
              link = '''', soldout = False\<rparr>)"
  using bowery_no_location [of e env] bowery_no_location_item [of env] bowery_bare_item [of env]
  by blast

theorem bowery_missing_location_raises_witness:
  "find_first (\<lambda>n. is_tag ''p'' n \<and> has_class ''list-location'' n) no_location_item = None
   \<and> (\<exists>ex. bowery_event_process late_env no_location_item = Inl ex)"
proof -
  have "find_first (\<lambda>n. is_tag ''p'' n \<and> has_class ''list-location'' n) no_location_item = None"
    by (simp add: no_location_item_def find_first_def)
  then show ?thesis
    using bowery_missing_location_raises [of no_location_item late_env]
    by blast
qed

section \<open>The default start of an event\<close>

text \<open>
  C9. An \<open>Event\<close> built without a \<open>start\<close> argument gets the value that the default
  expression \<open>datetime.datetime.today()\<close> had when the \<open>def\<close> statement ran, at import,
  whenever the construction happens: a show item without a calendar link, processed
  when the clock reads 10:45 by a module imported at 9:30, is serialized with 9:30.
\<close>

theorem event_default_start_is_import_time:
  "start (Event_init (Event_defaults t0) v b None l so) = t0
   \<and> bowery_event_process env bare_item =
       Inr (to_json \<lparr>venue = JStr ''Great Scott'', bands = [], start = import_today env,
              link = '''', soldout = False\<rparr>)
   \<and> today late_env \<noteq> import_today late_env
   \<and> isoformat (import_today late_env) = ''2018-03-15T09:30:00''
   \<and> bowery_event_process late_env bare_item =
       Inr (JObj [(''venue'', JStr ''Great Scott''), (''bands'', JArr []),
                  (''start'', JStr ''2018-03-15T09:30:00''), (''link'', JStr ''''),
                  (''soldout'', JBool False)])"
  using bowery_bare_item [of env] late_clock bowery_bare_item_late
  by (simp add: Event_init_def Event_defaults_def late_env_def sample_env_def isoformat_sample_day)

section \<open>The order of the aggregate\<close>

lemma sample_parse_full:
  "sample_parse (JStr ''2018-04-11T19:15:00-05:00'') =
     Inr \<lparr>year = 2018, month = 4, day = 11, hour = 19, minute = 15, second = 0,
          microsecond = 0, utcoffset = Some (- 18000)\<rparr>"
  by code_simp

lemma isoformat_full:
  "isoformat \<lparr>year = 2018, month = 4, day = 11, hour = 19, minute = 15, second = 0,
     microsecond = 0, utcoffset = Some (- 18000)\<rparr> = ''2018-04-11T19:15:00-05:00''"
  by (simp add: isoformat_def zpad_def format_offset_def digit_char_eq)

lemma descendants_full_item:
  "descendants full_item =
     [Tag ''a'' [(''href'', ''/boston/shows/detail/347671-lucy-dacus'')] [],
      Tag ''p'' [(''class'', ''list-location'')] [Tag ''strong'' [] [Text ''The Sinclair'']],
      Tag ''strong'' [] [Text ''The Sinclair''],
      Text ''The Sinclair'',
      Tag ''div'' [(''class'', ''info-title'')]
          [Tag ''h3'' [] [Tag ''a'' [(''href'', ''/boston/shows/detail/347671-lucy-dacus'')]
             [Text ''Lucy Dacus'']]],
      Tag ''h3'' [] [Tag ''a'' [(''href'', ''/boston/shows/detail/347671-lucy-dacus'')]
             [Text ''Lucy Dacus'']],
      Tag ''a'' [(''href'', ''/boston/shows/detail/347671-lucy-dacus'')] [Text ''Lucy Dacus''],
      Text ''Lucy Dacus'',
      Tag ''div'' [(''class'', ''supporting-acts'')]
          [Tag ''span'' [] [Text ''with And The Kids, Adult Mom'']],
      Tag ''span'' [] [Text ''with And The Kids, Adult Mom''],
      Text ''with And The Kids, Adult Mom'',
      Tag ''a'' [(''class'', ''calendar-dropdown-item google''),
                   (''data-start'', ''2018-04-11T19:15:00-05:00'')] [],
      Tag ''a'' [(''class'', ''button event ticket primary''),
                   (''href'', ''http://www.axs.com/events/347671/lucy-dacus-tickets'')]
          [Text ''Sold Out''],
      Text ''Sold Out'']"
  by (simp add: full_item_def)

lemma bowery_full_item:
  "bowery_event_process (sample_env net soup) full_item = Inr full_item_record"
  by (simp add: bowery_event_process_def descendants_full_item find_first_def has_class_def
      is_space_def bowery_bands_def get_text_strip_def strip_def strip_with_def Event_init_def
      Event_defaults_def Let_def sample_env_def sample_parse_full sample_astimezone_def
      to_json_def isoformat_full full_item_record_def lower_def lower_char_def char_of_eq_iff)

lemma show_items_sample:
  "find_all (\<lambda>n. is_tag ''div'' n \<and> has_class ''show-item'' n) (sample_soup s) = [full_item, bare_item]"
proof -
  have d: "descendants (sample_soup s) =
      Tag ''html'' [] [Tag ''body'' [] [full_item, bare_item]] # Tag ''body'' [] [full_item, bare_item]
      # (full_item # descendants full_item) @ (bare_item # descendants bare_item)"
    by (simp add: sample_soup_def)
  have f: "is_tag ''div'' full_item" "has_class ''show-item'' full_item"
    by (simp_all add: full_item_def has_class_def is_space_def)
  have b: "is_tag ''div'' bare_item" "has_class ''show-item'' bare_item"
    by (simp_all add: bare_item_def has_class_def is_space_def)
  have fd: "filter (\<lambda>n. is_tag ''div'' n \<and> has_class ''show-item'' n) (descendants full_item) = []"
    by (simp add: descendants_full_item has_class_def is_space_def)
  have bd: "filter (\<lambda>n. is_tag ''div'' n \<and> has_class ''show-item'' n) (descendants bare_item) = []"
    by (simp add: descendants_bare_item has_class_def is_space_def)
  show ?thesis
    by (simp add: find_all_def d f b fd bd)
qed

lemma bowery_bare_item_sample:
  "bowery_event_process (sample_env net soup) bare_item = Inr bare_item_record"
  by (simp add: bowery_bare_item to_json_def sample_env_def isoformat_sample_day bare_item_record_def)

lemma bowery_shows_sample:
  "bowery_shows (sample_env (sample_network code) sample_soup) = Inr [full_item_record, bare_item_record]"
proof -
  have "http_get (sample_env (sample_network code) sample_soup) BoweryEvents =
      Inr \<lparr>status_code = 200, rtext = ''<html>Bowery Boston</html>'', rjson = Inl DecodeError\<rparr>"
    by (simp add: sample_env_def sample_network_def)
  moreover have "html_parser (sample_env (sample_network code) sample_soup) = sample_soup"
    by (simp add: sample_env_def)
  ultimately show ?thesis
    by (simp add: bowery_shows_def show_items_sample bowery_full_item bowery_bare_item_sample)
qed

lemma sample_parse_lucy:
  "sample_parse (JStr ''2018-04-12T19:00:00-04:00'') =
     Inr \<lparr>year = 2018, month = 4, day = 12, hour = 19, minute = 0, second = 0,
          microsecond = 0, utcoffset = Some (- 14400)\<rparr>"
  by code_simp

lemma isoformat_lucy:
  "isoformat \<lparr>year = 2018, month = 4, day = 12, hour = 19, minute = 0, second = 0,
     microsecond = 0, utcoffset = Some (- 18000)\<rparr> = ''2018-04-12T19:00:00-05:00''"
  by (simp add: isoformat_def zpad_def format_offset_def digit_char_eq)

lemma houseofblues_item_lucy:
  "houseofblues_item (sample_env net soup) lucy_dacus = Inr lucy_dacus_record"
proof -
  have "houseofblues_item (sample_env net soup) lucy_dacus =
      Inr (to_json \<lparr>venue = JStr ''House of Blues Boston'',
             bands = [JStr ''Lucy Dacus'', JStr ''And The Kids''],
             start = \<lparr>year = 2018, month = 4, day = 12, hour = 19, minute = 0, second = 0,
                       microsecond = 0, utcoffset = Some (- 18000)\<rparr>,
             link = ''http://www.houseofblues.com/boston/EventDetail?tmeventid=0100547&offerid=0'',
             soldout = False\<rparr>)"
    by (simp add: houseofblues_item_def lucy_dacus_bands)
       (simp add: lucy_dacus_def sample_env_def sample_parse_lucy replace_tzlocal_def
          sample_str_def Event_init_def Event_defaults_def Let_def)
  then show ?thesis
    by (simp add: to_json_def isoformat_lucy lucy_dacus_record_def)
qed

lemma houseofblues_sample:
  "houseofblues (sample_env (sample_network code) soup) = Inr [lucy_dacus_record]"
proof -
  let ?env = "sample_env (sample_network code) soup"
  have t: "today ?env = sample_day"
    by (simp add: sample_env_def)
  have r: "replace_year sample_day (year sample_day + 1) = Inr (sample_day\<lparr>year := 2019\<rparr>)"
    by (simp add: replace_year_def sample_day_def days_in_month_def)
  have g: "http_get ?env (HouseOfBluesEvents a b) =
      Inr \<lparr>status_code = 200, rtext = CHR 0x22 # ''{hob}'' @ [CHR 0x22], rjson = Inl DecodeError\<rparr>" for a b
    by (simp add: sample_env_def sample_network_def)
  have l: "json_loads ?env ''{hob}'' = Inr (JObj [(''result'', JArr [lucy_dacus])])"
    by (simp add: sample_env_def sample_loads_def)
  show ?thesis
    unfolding houseofblues_def Let_def t r
    by (simp add: g l houseofblues_item_lucy)
qed

lemma main_monthly:
  "main env =
     bind (bowery_shows env) (\<lambda>html.
     bind (gather (map (contribution env) (schedule (month (today env), year (today env)) [0..<12])))
       (\<lambda>monthly. Inr (html @ monthly)))"
  by (simp add: main_def monthly_cals_result)

lemma schedule_closed:
  "1 \<le> m \<Longrightarrow> m \<le> 12 \<Longrightarrow>
   schedule (m, y) ps =
     concat (map (\<lambda>k. [MiddleEastMonth ((m + k) mod 12 + 1) (y + (m + k) div 12),
                         ParadiseMonth (ps ! k), BrightonMonth (ps ! k)]) [0..<length ps])"
proof (induction ps arbitrary: m y)
  case Nil
  then show ?case by simp
next
  case (Cons p ps)
  have shift: "[0..<Suc (length ps)] = 0 # map Suc [0..<length ps]"
    by (simp add: upt_conv_Cons map_Suc_upt del: upt_Suc)
  show ?case
  proof (cases "m = 12")
    case True
    have "schedule (1, Suc y) ps =
            concat (map (\<lambda>k. [MiddleEastMonth ((1 + k) mod 12 + 1) (Suc y + (1 + k) div 12),
                         ParadiseMonth (ps ! k), BrightonMonth (ps ! k)]) [0..<length ps])"
      using Cons.IH [of 1 "Suc y"] by simp
    moreover have "\<And>x::nat. (13 + x) div 12 = Suc (Suc x div 12)"
      by presburger
    ultimately show ?thesis using True
      by (simp add: shift comp_def del: upt_Suc)
  next
    case False
    then have "m + 1 \<le> 12" using Cons.prems by simp
    from Cons.IH [of "m + 1" y] this
    have "schedule (m + 1, y) ps =
            concat (map (\<lambda>k. [MiddleEastMonth ((m + 1 + k) mod 12 + 1) (y + (m + 1 + k) div 12),
                         ParadiseMonth (ps ! k), BrightonMonth (ps ! k)]) [0..<length ps])"
      by simp
    then show ?thesis using False Cons.prems
      by (simp add: shift comp_def del: upt_Suc)
  qed
qed

lemma schedule_twelve:
  assumes "1 \<le> m" "m \<le> 12"
  shows "schedule (m, y) [0..<12] =
     concat (map (\<lambda>k. [MiddleEastMonth ((m + k) mod 12 + 1) (y + (m + k) div 12),
                         ParadiseMonth k, BrightonMonth k]) [0..<12])"
proof -
  have "schedule (m, y) [0..<12] =
     concat (map (\<lambda>k. [MiddleEastMonth ((m + k) mod 12 + 1) (y + (m + k) div 12),
                         ParadiseMonth ([0..<12] ! k), BrightonMonth ([0..<12] ! k)])
               [0..<length [0..<12::nat]])"
    by (rule schedule_closed [OF assms])
  also have "\<dots> =
     concat (map (\<lambda>k. [MiddleEastMonth ((m + k) mod 12 + 1) (y + (m + k) div 12),
                         ParadiseMonth k, BrightonMonth k]) [0..<12])"
  proof (intro arg_cong [where f = concat] map_cong)
    show "[0..<length [0..<12::nat]] = [0..<12]"
      by simp
  next
    fix k :: nat
    assume "k \<in> set [0..<12]"
    then have "[0..<12] ! k = k"
      by (simp del: upt_Suc)
    then show "[MiddleEastMonth ((m + k) mod 12 + 1) (y + (m + k) div 12),
                ParadiseMonth ([0..<12] ! k), BrightonMonth ([0..<12] ! k)] =
               [MiddleEastMonth ((m + k) mod 12 + 1) (y + (m + k) div 12),
                ParadiseMonth k, BrightonMonth k]"
      by (simp only:)
  qed
  finally show ?thesis .
qed

lemma schedule_no_other_request:
  "q \<in> set (schedule cur ps) \<Longrightarrow> q \<noteq> BoweryEvents \<and> q \<noteq> HouseOfBluesEvents a b"
  by (induction cur ps rule: schedule.induct) (auto simp: Let_def split: if_splits)

lemma bowery_event_process_net [simp]:
  "bowery_event_process (env\<lparr>http_get := h\<rparr>) e = bowery_event_process env e"
  by (simp add: bowery_event_process_def cong: option.case_cong)

lemma bowery_loop_net [simp]:
  "bowery_loop (env\<lparr>http_get := h\<rparr>) es acc = bowery_loop env es acc"
proof (induction es arbitrary: acc)
  case Nil
  then show ?case by simp
next
  case (Cons e es)
  have "\<And>j. bowery_loop (env\<lparr>http_get := h\<rparr>) es (acc @ [j]) = bowery_loop env es (acc @ [j])"
    by (rule Cons.IH)
  then show ?case by simp
qed

lemma bowery_shows_other_request:
  "q \<noteq> BoweryEvents \<Longrightarrow>
   bowery_shows (env\<lparr>http_get := (http_get env)(q := x)\<rparr>) = bowery_shows env"
  by (simp add: bowery_shows_def Let_def)

lemma main_ignores_houseofblues:
  "main (env\<lparr>http_get := (http_get env)(HouseOfBluesEvents a b := x)\<rparr>) = main env"
proof -
  let ?env = "env\<lparr>http_get := (http_get env)(HouseOfBluesEvents a b := x)\<rparr>"
  let ?qs = "schedule (month (today env), year (today env)) [0..<12]"
  have "map (contribution ?env) ?qs = map (contribution env) ?qs"
    by (rule map_cong) (auto dest: schedule_no_other_request [of _ _ _ a b] intro: contribution_other_request)
  then have "gather (map (contribution ?env) ?qs) = gather (map (contribution env) ?qs)"
    by (simp only:)
  moreover have "today ?env = today env"
    by simp
  moreover have "bowery_shows ?env = bowery_shows env"
    by (simp add: bowery_shows_other_request)
  ultimately show ?thesis
    by (simp only: main_monthly)
qed

lemma gather_sample:
  "gather (map (contribution (sample_env (sample_network 503) soup)) (schedule (3, 2018) [0..<12])) =
     Inr (middleeast_loop (sample_env (sample_network 503) soup) batch5 [] @ [show_record])"
  by (simp add: schedule_sample sample_contributions contribution_paradise_5
      show_response_sample show_record_def)

lemma main_sample:
  "main (sample_env (sample_network 503) sample_soup) =
     Inr ([full_item_record, bare_item_record]
          @ middleeast_loop (sample_env (sample_network 503) sample_soup) batch5 []
          @ [show_record])"
  by (simp add: main_monthly bowery_shows_sample gather_sample)

lemma aggregate_as_claimed_sample:
  "aggregate_as_claimed (sample_env (sample_network 503) sample_soup) =
     Inr ([full_item_record, bare_item_record] @ [show_record]
          @ middleeast_loop (sample_env (sample_network 503) sample_soup) batch5 []
          @ [lucy_dacus_record])"
  by (simp add: aggregate_as_claimed_def bowery_shows_sample houseofblues_sample
      schedule_sample sample_contributions contribution_paradise_5 show_response_sample
      show_record_def)

text \<open>
  C4, as the code has it. \<open>main\<close> returns the Bowery records followed by the records of
  \<open>monthly_cals\<close>; these are, for each of the twelve months in turn, what the Middle
  East request of the month gives, then the Paradise Rock Club request, then the
  Brighton Music Hall request. \<open>houseofblues\<close> is not called: the answer of the House
  of Blues endpoint changes nothing.
\<close>

theorem main_bowery_then_months:
  "main env =
     bind (bowery_shows env) (\<lambda>html.
     bind (gather (map (contribution env) (schedule (month (today env), year (today env)) [0..<12])))
       (\<lambda>monthly. Inr (html @ monthly)))
   \<and> (1 \<le> month (today env) \<and> month (today env) \<le> 12 \<longrightarrow>
        schedule (month (today env), year (today env)) [0..<12] =
          concat (map (\<lambda>k. [MiddleEastMonth ((month (today env) + k) mod 12 + 1)
                                (year (today env) + (month (today env) + k) div 12),
                              ParadiseMonth k, BrightonMonth k]) [0..<12]))
   \<and> main (env\<lparr>http_get := (http_get env)(HouseOfBluesEvents a b := x)\<rparr>) = main env"
  using main_monthly [of env]
    schedule_twelve [of "month (today env)" "year (today env)"]
    main_ignores_houseofblues [of env a b x]
  by blast

theorem main_bowery_then_months_witness:
  "main (sample_env (sample_network 503) sample_soup) =
     Inr ([full_item_record, bare_item_record]
          @ middleeast_loop (sample_env (sample_network 503) sample_soup) batch5 []
          @ [show_record])
   \<and> schedule (3, 2018) [0..<12] =
       concat (map (\<lambda>k. [MiddleEastMonth ((3 + k) mod 12 + 1) (2018 + (3 + k) div 12),
                           ParadiseMonth k, BrightonMonth k]) [0..<12])"
proof -
  let ?env = "sample_env (sample_network 503) sample_soup"
  note t = main_bowery_then_months [of ?env]
  have m: "1 \<le> month (today ?env) \<and> month (today ?env) \<le> 12"
    by simp
  from t have "main ?env =
     bind (bowery_shows ?env) (\<lambda>html.
     bind (gather (map (contribution ?env) (schedule (month (today ?env), year (today ?env)) [0..<12])))
       (\<lambda>monthly. Inr (html @ monthly)))"
    by blast
  then have a: "main ?env =
     Inr ([full_item_record, bare_item_record] @ middleeast_loop ?env batch5 [] @ [show_record])"
    by (simp add: bowery_shows_sample gather_sample)
  from t m have "schedule (month (today ?env), year (today ?env)) [0..<12] =
          concat (map (\<lambda>k. [MiddleEastMonth ((month (today ?env) + k) mod 12 + 1)
                                (year (today ?env) + (month (today ?env) + k) div 12),
                              ParadiseMonth k, BrightonMonth k]) [0..<12])"
    by blast
  then have b: "schedule (3, 2018) [0..<12] =
       concat (map (\<lambda>k. [MiddleEastMonth ((3 + k) mod 12 + 1) (2018 + (3 + k) div 12),
                           ParadiseMonth k, BrightonMonth k]) [0..<12])"
    by (simp only: sample_today)
  from a b show ?thesis by blast
qed

text \<open>
  C4 as stated fails. On the sample network \<open>main\<close> returns the two Bowery records,
  the four Middle East records of April and then the Paradise Rock Club record. The
  order of the claim would put the Paradise Rock Club record before the Middle East
  records and end with the House of Blues record, which \<open>main\<close> never fetches.
\<close>

theorem aggregate_order_counterexample:
  "main (sample_env (sample_network 503) sample_soup) =
     Inr ([full_item_record, bare_item_record]
          @ middleeast_loop (sample_env (sample_network 503) sample_soup) batch5 []
          @ [show_record])
   \<and> aggregate_as_claimed (sample_env (sample_network 503) sample_soup) =
     Inr ([full_item_record, bare_item_record] @ [show_record]
          @ middleeast_loop (sample_env (sample_network 503) sample_soup) batch5 []
          @ [lucy_dacus_record])
   \<and> length (middleeast_loop (sample_env (sample_network 503) sample_soup) batch5 []) = 4
   \<and> main (sample_env (sample_network 503) sample_soup)
       \<noteq> aggregate_as_claimed (sample_env (sample_network 503) sample_soup)
   \<and> main (sample_env (sample_network 503) sample_soup)
       \<noteq> Inr ([full_item_record, bare_item_record] @ [show_record]
               @ middleeast_loop (sample_env (sample_network 503) sample_soup) batch5 [])"
proof -
  let ?env = "sample_env (sample_network 503) sample_soup"
  have l: "length (middleeast_loop ?env batch5 []) = 4"
    by (simp add: batch5_records)
  have "length ([full_item_record, bare_item_record] @ middleeast_loop ?env batch5 [] @ [show_record])
      \<noteq> length ([full_item_record, bare_item_record] @ [show_record]
          @ middleeast_loop ?env batch5 [] @ [lucy_dacus_record])"
    by (simp add: l)
  then have n: "main ?env \<noteq> aggregate_as_claimed ?env"
    unfolding main_sample aggregate_as_claimed_sample by (metis sum.inject(2))
  have "mideast_event ?env ''Upstairs'' [JStr ''Band A'', JStr ''Band B''] 12 20 0
          ''http://www.mideastoffers.com/event/101'' \<noteq> show_record"
    by (simp add: mideast_event_def to_json_def show_record_def)
  then have o: "main ?env \<noteq> Inr ([full_item_record, bare_item_record] @ [show_record]
               @ middleeast_loop ?env batch5 [])"
    unfolding main_sample by (simp add: batch5_records)
  from l n o show ?thesis
    using main_sample aggregate_as_claimed_sample by blast
qed

section \<open>Records and ISO 8601\<close>

lemma is_digit_digit_char: "k < 10 \<Longrightarrow> is_digit (digit_char k)"
  by (simp add: is_digit_def digit_char_def)

lemma digit_val_digit_char: "k < 10 \<Longrightarrow> digit_val (digit_char k) = k"
  by (simp add: digit_val_def digit_char_def)

lemma field_int_snoc:
  "is_digit c \<Longrightarrow> field_int (s @ [c]) = 10 * field_int s + digit_val c"
  by (simp add: field_int_def)

lemma decimal_digits: "list_all is_digit (decimal n)"
proof (induction n rule: decimal.induct)
  case (1 n)
  show ?case
  proof (cases "n < 10")
    case True
    then show ?thesis by (simp add: is_digit_digit_char)
  next
    case False
    with 1 have "list_all is_digit (decimal (n div 10))" by simp
    moreover have "is_digit (digit_char (n mod 10))" by (simp add: is_digit_digit_char)
    ultimately show ?thesis using False by (subst decimal.simps) simp
  qed
qed

lemma field_int_decimal: "field_int (decimal n) = n"
proof (induction n rule: decimal.induct)
  case (1 n)
  show ?case
  proof (cases "n < 10")
    case True
    then show ?thesis
      by (simp add: field_int_def is_digit_digit_char digit_val_digit_char)
  next
    case False
    with 1 have "field_int (decimal (n div 10)) = n div 10" by simp
    moreover have "decimal n = decimal (n div 10) @ [digit_char (n mod 10)]"
      using False by (subst decimal.simps) simp
    ultimately show ?thesis
      by (simp add: field_int_snoc is_digit_digit_char digit_val_digit_char del: decimal.simps)
  qed
qed

lemma length_decimal: "0 < w \<Longrightarrow> n < 10 ^ w \<Longrightarrow> length (decimal n) \<le> w"
proof (induction w arbitrary: n)
  case 0
  then show ?case by simp
next
  case (Suc w)
  show ?case
  proof (cases "n < 10")
    case True
    then show ?thesis by simp
  next
    case False
    then have w: "0 < w"
      using Suc.prems by (cases w) auto
    have "n div 10 < 10 ^ w"
      using Suc.prems by (simp add: less_mult_imp_div_less mult.commute)
    from Suc.IH [OF w this] have "length (decimal (n div 10)) \<le> w" .
    moreover have "decimal n = decimal (n div 10) @ [digit_char (n mod 10)]"
      using False by (subst decimal.simps) simp
    ultimately show ?thesis by (simp del: decimal.simps)
  qed
qed

lemma is_digit_zero: "is_digit (CHR ''0'')" "digit_val (CHR ''0'') = 0"
  by (simp_all add: is_digit_def digit_val_def)

lemma field_int_zeros: "field_int (replicate k (CHR ''0'') @ s) = field_int s"
  by (induction k) (simp_all add: field_int_def is_digit_zero)

lemma zpad_props:
  assumes "0 < w" "n < 10 ^ w"
  shows "length (zpad w n) = w" "list_all is_digit (zpad w n)" "field_int (zpad w n) = n"
  using length_decimal [OF assms] decimal_digits [of n]
  by (auto simp: zpad_def field_int_zeros field_int_decimal is_digit_zero list_all_iff
      simp del: decimal.simps)

lemma number_zpad:
  assumes "0 < w" "n < 10 ^ w"
  shows "number w (zpad w n @ r) = Some (n, r)"
  using zpad_props [OF assms] by (simp add: number_def)

lemma literal_Cons [simp]: "literal c (c # r) = Some r"
  by (simp add: literal_def)

lemma number_zpad2: "n < 100 \<Longrightarrow> number 2 (zpad 2 n @ r) = Some (n, r)"
  using number_zpad [of 2 n r] by simp

lemma number_zpad2_end: "n < 100 \<Longrightarrow> number 2 (zpad 2 n) = Some (n, [])"
  using number_zpad [of 2 n "[]"] by simp

lemma parse_zone_format:
  assumes "- 86400 < off" "off < 86400"
  shows "parse_zone (format_offset off) = Some (Some off)"
proof -
  define a where "a = nat \<bar>off\<bar>"
  have a: "a < 86400" "int a = \<bar>off\<bar>"
    using assms by (simp_all add: a_def)
  have hh: "a div 3600 < 24" "a div 3600 < 100"
    using a(1) by (simp_all add: less_mult_imp_div_less)
  have mm: "a mod 3600 div 60 < 60" "a mod 3600 div 60 < 100"
    by (simp_all add: less_mult_imp_div_less)
  have ss: "a mod 60 < 60" "a mod 60 < 100"
    by simp_all
  have "a mod 60 = a mod 3600 mod 60"
    by (simp add: mod_mod_cancel)
  then have "a div 3600 * 3600 + a mod 3600 div 60 * 60 + a mod 60 = a"
    by (simp add: add.assoc)
  then have "int (a div 3600 * 3600 + a mod 3600 div 60 * 60 + a mod 60) = int a"
    by (simp only:)
  then have sum: "int (a div 3600) * 3600 + int (a mod 3600 div 60) * 60 + int (a mod 60) = int a"
    by simp
  have sum0: "a mod 60 = 0 \<Longrightarrow> int (a div 3600) * 3600 + int (a mod 3600 div 60) * 60 = int a"
    using sum by simp
  show ?thesis
  proof (cases "a mod 60 = 0")
    case True
    then show ?thesis
      using assms a(2) sum0 [OF True] hh mm
      by (simp add: format_offset_def parse_zone_def Let_def number_zpad2 number_zpad2_end flip: a_def)
  next
    case False
    then show ?thesis
      using assms a(2) sum hh mm ss
      by (simp add: format_offset_def parse_zone_def Let_def number_zpad2 number_zpad2_end flip: a_def)
  qed
qed

lemma format_offset_first:
  "\<exists>c r. format_offset off = c # r \<and> (c = CHR ''+'' \<or> c = CHR ''-'')"
  by (simp add: format_offset_def Let_def)

lemma zone_no_fraction:
  "literal (CHR ''.'') (case z of None \<Rightarrow> [] | Some off \<Rightarrow> format_offset off) = None"
proof (cases z)
  case None
  then show ?thesis by (simp add: literal_def)
next
  case (Some off)
  obtain c r where "format_offset off = c # r" "c = CHR ''+'' \<or> c = CHR ''-''"
    using format_offset_first by blast
  with Some show ?thesis by (auto simp: literal_def)
qed

lemma parse_zone_of:
  "valid_offset z \<Longrightarrow>
   parse_zone (case z of None \<Rightarrow> [] | Some off \<Rightarrow> format_offset off) = Some z"
proof (cases z)
  case None
  then show ?thesis by (simp add: parse_zone_def)
next
  case (Some off)
  assume "valid_offset z"
  with Some have "- 86400 < off" "off < 86400"
    by (simp_all add: valid_offset_def)
  then show ?thesis
    using Some by (simp add: parse_zone_format)
qed

lemma parse_iso8601_isoformat:
  assumes "valid_datetime d"
  shows "parse_iso8601 (isoformat d) = Some d"
proof (cases d)
  case (fields Y m dd H M S us z)
  have v: "valid_datetime \<lparr>year = Y, month = m, day = dd, hour = H, minute = M, second = S,
      microsecond = us, utcoffset = z\<rparr>"
    using assms fields by simp
  then have r: "Y < 10 ^ 4" "m < 100" "dd < 100" "H < 100" "M < 100" "S < 100" "us < 10 ^ 6"
    "valid_offset z"
    by (auto simp: valid_datetime_def days_in_month_def split: if_splits)
  have z: "parse_zone (case z of None \<Rightarrow> [] | Some off \<Rightarrow> format_offset off) = Some z"
    by (rule parse_zone_of [OF r(8)])
  have y: "number 4 (zpad 4 Y @ s) = Some (Y, s)" for s
    by (rule number_zpad) (use r in simp_all)
  have u: "number 6 (zpad 6 us @ s) = Some (us, s)" for s
    by (rule number_zpad) (use r in simp_all)
  show ?thesis
  proof (cases "us = 0")
    case True
    with v show ?thesis
      by (simp add: fields parse_iso8601_def isoformat_def y number_zpad2 r zone_no_fraction z)
  next
    case False
    with v show ?thesis
      by (simp add: fields parse_iso8601_def isoformat_def y u number_zpad2 r z)
  qed
qed

lemma to_json_event_json:
  "valid_datetime (start ev) \<Longrightarrow> event_json (to_json ev)"
  by (simp add: event_json_def five_keys_def start_is_iso_def to_json_def parse_iso8601_isoformat)

lemma in_range_digit:
  assumes "in_range lo hi c" "hi \<le> 9"
  shows "is_digit c" "lo \<le> digit_val c" "digit_val c \<le> hi"
  using assms by (auto simp: in_range_def is_digit_def digit_val_def Let_def)

lemma is_digit_val: "is_digit c \<Longrightarrow> digit_val c \<le> 9"
  by (auto simp: is_digit_def digit_val_def Let_def)

lemma field_int_one: "is_digit a \<Longrightarrow> field_int [a] = digit_val a"
  by (simp add: field_int_def)

lemma field_int_two: "is_digit a \<Longrightarrow> is_digit b \<Longrightarrow> field_int [a, b] = 10 * digit_val a + digit_val b"
  by (simp add: field_int_def)

lemma field_int_space: "is_digit b \<Longrightarrow> field_int [CHR '' '', b] = digit_val b"
  by (simp add: field_int_def is_digit_def)

lemma field_int_bound: "list_all is_digit s \<Longrightarrow> field_int s < 10 ^ length s"
proof (induction s rule: rev_induct)
  case Nil
  then show ?case by (simp add: field_int_def)
next
  case (snoc c s)
  then have "field_int s < 10 ^ length s" "digit_val c \<le> 9" "is_digit c"
    by (simp_all add: is_digit_val)
  then show ?case
    by (simp add: field_int_snoc)
qed

lemma alt2_Some:
  "alt2 p q s = Some (f, r) \<Longrightarrow> \<exists>a b. f = [a, b] \<and> p a \<and> q b"
  by (auto simp: alt2_def split: list.splits if_splits)

lemma alt1_Some:
  "alt1 p s = Some (f, r) \<Longrightarrow> \<exists>a. f = [a] \<and> p a"
  by (auto simp: alt1_def split: list.splits if_splits)

lemma orelse_Some: "orelse x y = Some v \<Longrightarrow> x = Some v \<or> y = Some v"
  by (auto simp: orelse_def split: option.splits)

lemma directive_Y_range: "directive_Y s = Some (f, r) \<Longrightarrow> field_int f \<le> 9999"
proof -
  assume "directive_Y s = Some (f, r)"
  then have "list_all is_digit f" "length f = 4"
    by (auto simp: directive_Y_def split: if_splits)
  with field_int_bound [of f] show ?thesis by simp
qed

lemmas char_ranges = field_int_def in_range_def is_digit_def digit_val_def Let_def

lemma directive_m_range:
  "directive_m s = Some (f, r) \<Longrightarrow> 1 \<le> field_int f \<and> field_int f \<le> 12"
  unfolding directive_m_def
  by (auto dest!: orelse_Some alt2_Some alt1_Some simp: char_ranges)

lemma directive_d_range:
  "directive_d s = Some (f, r) \<Longrightarrow> 1 \<le> field_int f"
  unfolding directive_d_def
  by (auto dest!: orelse_Some alt2_Some alt1_Some simp: char_ranges)

lemma directive_H_range:
  "directive_H s = Some (f, r) \<Longrightarrow> field_int f \<le> 23"
  unfolding directive_H_def
  by (auto dest!: orelse_Some alt2_Some alt1_Some simp: char_ranges)

lemma directive_M_range:
  "directive_M s = Some (f, r) \<Longrightarrow> field_int f \<le> 59"
  unfolding directive_M_def
  by (auto dest!: orelse_Some alt2_Some alt1_Some simp: char_ranges)

lemma match_format_range:
  assumes "match_format s = Some (Y, m, d, H, M, S)"
  shows "Y \<le> 9999 \<and> 1 \<le> m \<and> m \<le> 12 \<and> 1 \<le> d \<and> H \<le> 23 \<and> M \<le> 59"
  using assms unfolding match_format_def
  by (auto simp: Option.bind_eq_Some_conv split: if_splits
      dest: directive_Y_range directive_m_range directive_d_range directive_H_range
        directive_M_range)

lemma strptime_valid:
  assumes "strptime v = Inr d"
  shows "valid_datetime d"
proof (cases v)
  case (JStr s)
  with assms obtain Y m dd H M S where
    m: "match_format s = Some (Y, m, dd, H, M, S)" and
    c: "1 \<le> Y" "dd \<le> days_in_month Y m" "S \<le> 59" and
    d: "d = \<lparr>year = Y, month = m, day = dd, hour = H, minute = M, second = S,
              microsecond = 0, utcoffset = None\<rparr>"
    by (auto split: option.splits if_splits)
  from match_format_range [OF m] c show ?thesis
    by (simp add: d valid_datetime_def valid_offset_def)
qed (use assms in simp_all)


end
